theory Spec2Isabelle
  imports Main "HOL-Library.Word" "HOL-Library.Sublist"
begin

section \<open>JavaScript values\<close>

text \<open>
  A JavaScript string is a sequence of UTF-16 code units. String literals of the source
  are ASCII apart from the instructional preamble; \<open>lit\<close> embeds an ASCII literal.
\<close>

type_synonym jsstring = "16 word list"

definition lit :: "string \<Rightarrow> jsstring" where
  "lit s = map (\<lambda>c. of_char c) s"

text \<open>
  The values the program handles: what \<open>JSON.parse\<close> produces, the object literals the
  source builds, and \<open>undefined\<close>, which reading a missing property yields. An object is
  the list of its own properties in insertion order (keys distinct). Numbers are the
  integers the program uses (token cap, HTTP status).
\<close>

datatype json =
    JUndefined
  | JNull
  | JBool bool
  | JNum int
  | JStr jsstring
  | JArr "json list"
  | JObj "(jsstring \<times> json) list"

text \<open>Truthiness, as tested by \<open>!x\<close>, \<open>x || y\<close> and \<open>if (x)\<close>.\<close>

fun truthy :: "json \<Rightarrow> bool" where
  "truthy JUndefined = False"
| "truthy JNull = False"
| "truthy (JBool b) = b"
| "truthy (JNum n) = (n \<noteq> 0)"
| "truthy (JStr s) = (s \<noteq> [])"
| "truthy (JArr xs) = True"
| "truthy (JObj kvs) = True"

text \<open>\<open>a || b\<close>: the first operand when it is truthy, else the second.\<close>

definition js_or :: "json \<Rightarrow> json \<Rightarrow> json" where
  "js_or a b = (if truthy a then a else b)"

text \<open>
  What the program can catch: an \<open>Error\<close> carrying a message (\<open>new Error(...)\<close>, or a
  rejection of a platform call, the syntax error of \<open>JSON.parse\<close>), the
  \<open>TypeError\<close> of reading a property of \<open>undefined\<close> or \<open>null\<close>, or of
  calling a method the value does not have (the value and the property name), and the two
  errors of the HTTP client that the handler of \<open>sendToAI\<close> tells apart: one with a
  \<open>response\<close> (status and data), one with a \<open>request\<close> and no response.
\<close>

datatype js_error =
    Error jsstring
  | TypeError json jsstring
  | HttpError int json
  | NoResponseError

text \<open>
  Reading a property of a value that is neither \<open>undefined\<close> nor \<open>null\<close>, for the
  property names read here (\<open>choices\<close>, \<open>message\<close>, \<open>content\<close>, \<open>text\<close>,
  \<open>error\<close>, \<open>messages\<close>): an object yields its own property or \<open>undefined\<close>;
  a primitive or an array has none of them.
\<close>

fun propOf :: "json \<Rightarrow> jsstring \<Rightarrow> json" where
  "propOf (JObj kvs) k = (case map_of kvs k of None \<Rightarrow> JUndefined | Some v \<Rightarrow> v)"
| "propOf v k = JUndefined"

text \<open>\<open>v.k\<close>: a TypeError on \<open>undefined\<close> and \<open>null\<close>.\<close>

fun getProp :: "json \<Rightarrow> jsstring \<Rightarrow> js_error + json" where
  "getProp JUndefined k = Inl (TypeError JUndefined k)"
| "getProp JNull k = Inl (TypeError JNull k)"
| "getProp v k = Inr (propOf v k)"

text \<open>\<open>v?.k\<close>: \<open>undefined\<close> on \<open>undefined\<close> and \<open>null\<close>.\<close>

fun optProp :: "json \<Rightarrow> jsstring \<Rightarrow> json" where
  "optProp JUndefined k = JUndefined"
| "optProp JNull k = JUndefined"
| "optProp v k = propOf v k"

text \<open>
  \<open>v[0]\<close>: the first element of an array, the first code unit of a string, the
  property \<open>"0"\<close> of an object; \<open>undefined\<close> when there is none.
\<close>

fun getIndex0 :: "json \<Rightarrow> js_error + json" where
  "getIndex0 JUndefined = Inl (TypeError JUndefined (lit ''0''))"
| "getIndex0 JNull = Inl (TypeError JNull (lit ''0''))"
| "getIndex0 (JArr xs) = Inr (case xs of [] \<Rightarrow> JUndefined | x # _ \<Rightarrow> x)"
| "getIndex0 (JStr s) = Inr (case s of [] \<Rightarrow> JUndefined | c # _ \<Rightarrow> JStr [c])"
| "getIndex0 v = Inr (propOf v (lit ''0''))"

text \<open>Sequencing of steps that may throw.\<close>

definition bindE :: "'e + 'a \<Rightarrow> ('a \<Rightarrow> 'e + 'b) \<Rightarrow> 'e + 'b" where
  "bindE r f = (case r of Inl e \<Rightarrow> Inl e | Inr x \<Rightarrow> f x)"

text \<open>A non-negative integer in a template literal: its decimal digits.\<close>

fun digitsOf :: "nat \<Rightarrow> jsstring" where
  "digitsOf n =
     (if n < 10 then [of_nat (48 + n)]
      else digitsOf (n div 10) @ [of_nat (48 + n mod 10)])"

definition numberToString :: "int \<Rightarrow> jsstring" where
  "numberToString i =
     (if i < 0 then lit ''-'' @ digitsOf (nat (- i)) else digitsOf (nat i))"

section \<open>The AI service\<close>

datatype AIProvider = openai | anthropic | perplexity

text \<open>The provider as it appears in a template literal.\<close>

fun providerName :: "AIProvider \<Rightarrow> jsstring" where
  "providerName openai = lit ''openai''"
| "providerName anthropic = lit ''anthropic''"
| "providerName perplexity = lit ''perplexity''"

record AIResponse =
  text' :: json
  provider :: AIProvider
  scaledImageUri :: "jsstring option"

record provider_config =
  apiUrl :: jsstring
  model :: jsstring
  headers :: "jsstring \<Rightarrow> (jsstring \<times> jsstring) list"

fun API_CONFIG :: "AIProvider \<Rightarrow> provider_config" where
  "API_CONFIG openai = \<lparr>
     apiUrl = lit ''https://api.openai.com/v1/chat/completions'',
     model = lit ''gpt-4-vision-preview'',
     headers = (\<lambda>apiKey.
       [(lit ''Content-Type'', lit ''application/json''),
        (lit ''Authorization'', lit ''Bearer '' @ apiKey)]) \<rparr>"
| "API_CONFIG anthropic = \<lparr>
     apiUrl = lit ''https://api.anthropic.com/v1/messages'',
     model = lit ''claude-3-opus-20240229'',
     headers = (\<lambda>apiKey.
       [(lit ''Content-Type'', lit ''application/json''),
        (lit ''x-api-key'', apiKey),
        (lit ''anthropic-version'', lit ''2023-06-01'')]) \<rparr>"
| "API_CONFIG perplexity = \<lparr>
     apiUrl = lit ''https://api.perplexity.ai/chat/completions'',
     model = lit ''sonar'',
     headers = (\<lambda>apiKey.
       [(lit ''Content-Type'', lit ''application/json''),
        (lit ''Authorization'', lit ''Bearer '' @ apiKey)]) \<rparr>"

subsection \<open>The platform\<close>

text \<open>
  The calls that leave the module are parameters: the image manipulator (source URI to
  the URI of the resized JPEG), the file system (URI to base64 text), the HTTP transport
  under the client, and the text the JavaScript engine gives a TypeError. Each call the
  module makes is recorded as an event, in order.
\<close>

record http_request =
  url :: jsstring
  body :: json
  reqHeaders :: "(jsstring \<times> jsstring) list"

datatype transport_outcome =
    Responded int json
  | NoResponse
  | SetupFailed jsstring

record runtime =
  manipulateAsync :: "jsstring \<Rightarrow> js_error + jsstring"
  readAsStringAsync :: "jsstring \<Rightarrow> js_error + jsstring"
  transport :: "http_request \<Rightarrow> transport_outcome"
  typeErrorMessage :: "json \<Rightarrow> jsstring \<Rightarrow> jsstring"

datatype log_arg = LStr jsstring | LErr js_error | LVal json

datatype event =
    ManipulateImage jsstring
  | ReadFile jsstring
  | HttpPost http_request
  | ConsoleError "log_arg list"
  | AlertShown jsstring json

text \<open>
  \<open>axios.post\<close>: resolves with the response when the status is in the range of 2xx;
  rejects with an error carrying the response otherwise, with an error carrying only the
  request when no response was received, and with a plain error when setting up the
  request failed (the three cases the handler of \<open>sendToAI\<close> names).
\<close>

definition axios_post :: "runtime \<Rightarrow> http_request \<Rightarrow> js_error + (int \<times> json)" where
  "axios_post rt req =
     (case transport rt req of
        Responded status d \<Rightarrow>
          if 200 \<le> status \<and> status < 300 then Inr (status, d) else Inl (HttpError status d)
      | NoResponse \<Rightarrow> Inl NoResponseError
      | SetupFailed m \<Rightarrow> Inl (Error m))"

subsection \<open>imageToBase64\<close>

text \<open>
  Resizes to width 800, recompresses as JPEG at quality 0.7, reads the result as base64.
  A failure of either call is logged and rethrown.
\<close>

definition imageToBase64 ::
  "runtime \<Rightarrow> jsstring \<Rightarrow> event list \<times> (js_error + (jsstring \<times> jsstring))" where
  "imageToBase64 rt uri =
     (case manipulateAsync rt uri of
        Inl e \<Rightarrow>
          ([ManipulateImage uri,
            ConsoleError [LStr (lit ''Error converting image to base64:''), LErr e]], Inl e)
      | Inr manipUri \<Rightarrow>
          (case readAsStringAsync rt manipUri of
             Inl e \<Rightarrow>
               ([ManipulateImage uri, ReadFile manipUri,
                 ConsoleError [LStr (lit ''Error converting image to base64:''), LErr e]], Inl e)
           | Inr base64 \<Rightarrow>
               ([ManipulateImage uri, ReadFile manipUri], Inr (base64, manipUri))))"

subsection \<open>formatRequestBody\<close>

definition defaultPrompt :: jsstring where
  "defaultPrompt = concat
     [lit ''Bu resmi analiz et ve a'', [0x00E7, 0x0131],
      lit ''kla. Bu muhtemelen bir Almanca '', [0x00E7], lit ''al'', [0x0131, 0x015F],
      lit ''ma veya dersidir. '', [0x00D6], lit ''devim i'', [0x00E7],
      lit ''in yard'', [0x0131], lit ''mc'', [0x0131],
      lit '' ol. Bana '', [0x00F6, 0x011F], lit ''retmen gibi yakla'', [0x015F],
      lit '' hatalar'', [0x0131], lit ''m varsa s'', [0x00F6],
      lit ''yle. Sen benim Almanca '', [0x00F6, 0x011F],
      lit ''retmenimsin. Sorular'', [0x0131], lit ''m'', [0x0131],
      lit '' sana soraca'', [0x011F, 0x0131], lit ''m. Cevab'', [0x0131],
      lit ''n l'', [0x00FC], lit ''tfen T'', [0x00FC], lit ''rk'', [0x00E7],
      lit ''e olsun. Almanca ifadeleri italic ver. Resmi ekte g'', [0x00F6],
      lit ''nderiyorum: '']"

text \<open>
  Truthiness of a string that may be \<open>null\<close> or \<open>undefined\<close>, as in
  \<open>if (imageUri)\<close>: the empty string is falsy too.
\<close>

fun truthyOpt :: "jsstring option \<Rightarrow> bool" where
  "truthyOpt None = False"
| "truthyOpt (Some u) = (u \<noteq> [])"

text \<open>The two parts of a message with an image, for each provider.\<close>

definition textPart :: "jsstring \<Rightarrow> json" where
  "textPart prompt =
     JObj [(lit ''type'', JStr (lit ''text'')), (lit ''text'', JStr (defaultPrompt @ prompt))]"

definition imageUrlPart :: "jsstring \<Rightarrow> json" where
  "imageUrlPart base64Image =
     JObj [(lit ''type'', JStr (lit ''image_url'')),
           (lit ''image_url'',
              JObj [(lit ''url'', JStr (lit ''data:image/jpeg;base64,'' @ base64Image))])]"

definition imageBlockPart :: "jsstring \<Rightarrow> json" where
  "imageBlockPart base64Image =
     JObj [(lit ''type'', JStr (lit ''image'')),
           (lit ''source'',
              JObj [(lit ''type'', JStr (lit ''base64'')),
                    (lit ''media_type'', JStr (lit ''image/jpeg'')),
                    (lit ''data'', JStr base64Image)])]"

definition userMessage :: "json \<Rightarrow> json" where
  "userMessage c = JObj [(lit ''role'', JStr (lit ''user'')), (lit ''content'', c)]"

fun imageBody :: "AIProvider \<Rightarrow> jsstring \<Rightarrow> jsstring \<Rightarrow> json" where
  "imageBody openai prompt base64Image =
     JObj [(lit ''model'', JStr (model (API_CONFIG openai))),
           (lit ''messages'',
              JArr [userMessage (JArr [textPart prompt, imageUrlPart base64Image])]),
           (lit ''max_tokens'', JNum 1000)]"
| "imageBody anthropic prompt base64Image =
     JObj [(lit ''model'', JStr (model (API_CONFIG anthropic))),
           (lit ''messages'',
              JArr [userMessage (JArr [textPart prompt, imageBlockPart base64Image])]),
           (lit ''max_tokens'', JNum 1000)]"
| "imageBody perplexity prompt base64Image =
     JObj [(lit ''model'', JStr (model (API_CONFIG perplexity))),
           (lit ''messages'',
              JArr [userMessage (JArr [textPart prompt, imageUrlPart base64Image])])]"

fun textBody :: "AIProvider \<Rightarrow> jsstring \<Rightarrow> json" where
  "textBody openai prompt =
     JObj [(lit ''model'', JStr (model (API_CONFIG openai))),
           (lit ''messages'', JArr [userMessage (JStr prompt)]),
           (lit ''max_tokens'', JNum 1000)]"
| "textBody anthropic prompt =
     JObj [(lit ''model'', JStr (model (API_CONFIG anthropic))),
           (lit ''messages'', JArr [userMessage (JStr prompt)]),
           (lit ''max_tokens'', JNum 1000)]"
| "textBody perplexity prompt =
     JObj [(lit ''model'', JStr (model (API_CONFIG perplexity))),
           (lit ''messages'', JArr [userMessage (JStr prompt)])]"

text \<open>
  The body and the URI of the resized image. With an image the image is transformed
  first, and a failure there is the failure of the whole call.
\<close>

definition formatRequestBody ::
  "runtime \<Rightarrow> AIProvider \<Rightarrow> jsstring \<Rightarrow> jsstring option
     \<Rightarrow> event list \<times> (js_error + (json \<times> jsstring option))" where
  "formatRequestBody rt p prompt imageUri =
     (if truthyOpt imageUri then
        (case imageToBase64 rt (the imageUri) of
           (evs, Inl e) \<Rightarrow> (evs, Inl e)
         | (evs, Inr (base64Image, scaledUri)) \<Rightarrow>
             (evs, Inr (imageBody p prompt base64Image, Some scaledUri)))
      else ([], Inr (textBody p prompt, None)))"

subsection \<open>parseResponse\<close>

text \<open>
  The reply text is read along a fixed path of the payload; the provider type is closed,
  so the \<open>default\<close> branch of the source's \<open>switch\<close> has no case here.
\<close>

fun parseResponse :: "AIProvider \<Rightarrow> json \<Rightarrow> js_error + json" where
  "parseResponse openai d =
     bindE (getProp d (lit ''choices'')) (\<lambda>cs.
     bindE (getIndex0 cs) (\<lambda>c.
     bindE (getProp c (lit ''message'')) (\<lambda>m.
     getProp m (lit ''content''))))"
| "parseResponse anthropic d =
     bindE (getProp d (lit ''content'')) (\<lambda>cs.
     bindE (getIndex0 cs) (\<lambda>c.
     getProp c (lit ''text'')))"
| "parseResponse perplexity d =
     bindE (getProp d (lit ''choices'')) (\<lambda>cs.
     bindE (getIndex0 cs) (\<lambda>c.
     bindE (getProp c (lit ''message'')) (\<lambda>m.
     getProp m (lit ''content''))))"

subsection \<open>sendToAI\<close>

text \<open>\<open>scaledUri || undefined\<close>.\<close>

definition orUndefined :: "jsstring option \<Rightarrow> jsstring option" where
  "orUndefined u = (if truthyOpt u then u else None)"

text \<open>The request given to \<open>axios.post\<close>: the provider's URL, the body, the provider's headers.\<close>

definition requestFor :: "AIProvider \<Rightarrow> jsstring \<Rightarrow> json \<Rightarrow> http_request" where
  "requestFor p apiKey b =
     \<lparr> url = apiUrl (API_CONFIG p), body = b, reqHeaders = headers (API_CONFIG p) apiKey \<rparr>"

text \<open>The body of the \<open>try\<close> block.\<close>

definition sendToAI_try ::
  "runtime \<Rightarrow> AIProvider \<Rightarrow> jsstring \<Rightarrow> jsstring \<Rightarrow> jsstring option
     \<Rightarrow> event list \<times> (js_error + AIResponse)" where
  "sendToAI_try rt p apiKey prompt imageUri =
     (if apiKey = [] then
        ([], Inl (Error (lit ''API key for '' @ providerName p @ lit '' is not set'')))
      else
        (case formatRequestBody rt p prompt imageUri of
           (evs, Inl e) \<Rightarrow> (evs, Inl e)
         | (evs, Inr (requestBody, scaledUri)) \<Rightarrow>
             (case axios_post rt (requestFor p apiKey requestBody) of
                Inl e \<Rightarrow> (evs @ [HttpPost (requestFor p apiKey requestBody)], Inl e)
              | Inr (status, d) \<Rightarrow>
                  (case parseResponse p d of
                     Inl e \<Rightarrow> (evs @ [HttpPost (requestFor p apiKey requestBody)], Inl e)
                   | Inr t \<Rightarrow>
                       (evs @ [HttpPost (requestFor p apiKey requestBody)],
                        Inr \<lparr> text' = t, provider = p,
                              scaledImageUri = orUndefined scaledUri \<rparr>)))))"

text \<open>
  The message shown for an error with a response:
  \<open>data?.error?.message || data?.error || `Error: ${status}`\<close>.
\<close>

definition errorMessage :: "int \<Rightarrow> json \<Rightarrow> json" where
  "errorMessage status d =
     js_or (optProp (optProp d (lit ''error'')) (lit ''message''))
       (js_or (optProp d (lit ''error''))
          (JStr (lit ''Error: '' @ numberToString status)))"

text \<open>
  The \<open>catch\<close> block: what is logged and shown before the error is rethrown. An
  error with a \<open>response\<close> comes first, then one with a \<open>request\<close>; for any other
  the alert shows \<open>error.message\<close>.
\<close>

fun sendToAI_catch :: "runtime \<Rightarrow> AIProvider \<Rightarrow> js_error \<Rightarrow> event list" where
  "sendToAI_catch rt p (HttpError status d) =
     [ConsoleError [LStr (lit ''Error with '' @ providerName p @ lit '' API:''),
                    LErr (HttpError status d)],
      ConsoleError [LStr (lit ''Response data:''), LVal d],
      ConsoleError [LStr (lit ''Response status:''), LVal (JNum status)],
      AlertShown (providerName p @ lit '' API Error'') (errorMessage status d)]"
| "sendToAI_catch rt p NoResponseError =
     [ConsoleError [LStr (lit ''Error with '' @ providerName p @ lit '' API:''),
                    LErr NoResponseError],
      AlertShown (lit ''Network Error'')
        (JStr (lit ''No response from server. Please check your internet connection.''))]"
| "sendToAI_catch rt p (Error m) =
     [ConsoleError [LStr (lit ''Error with '' @ providerName p @ lit '' API:''),
                    LErr (Error m)],
      AlertShown (lit ''Error'') (JStr m)]"
| "sendToAI_catch rt p (TypeError v k) =
     [ConsoleError [LStr (lit ''Error with '' @ providerName p @ lit '' API:''),
                    LErr (TypeError v k)],
      AlertShown (lit ''Error'') (JStr (typeErrorMessage rt v k))]"

definition sendToAI ::
  "runtime \<Rightarrow> AIProvider \<Rightarrow> jsstring \<Rightarrow> jsstring \<Rightarrow> jsstring option
     \<Rightarrow> event list \<times> (js_error + AIResponse)" where
  "sendToAI rt p apiKey prompt imageUri =
     (case sendToAI_try rt p apiKey prompt imageUri of
        (evs, Inl e) \<Rightarrow> (evs @ sendToAI_catch rt p e, Inl e)
      | (evs, Inr r) \<Rightarrow> (evs, Inr r))"

text \<open>Whether a run touched the image pipeline or the network.\<close>

fun isExternalCall :: "event \<Rightarrow> bool" where
  "isExternalCall (ManipulateImage u) = True"
| "isExternalCall (ReadFile u) = True"
| "isExternalCall (HttpPost r) = True"
| "isExternalCall e = False"

fun isHttpPost :: "event \<Rightarrow> bool" where
  "isHttpPost (HttpPost r) = True"
| "isHttpPost e = False"

section \<open>The chat screen\<close>

text \<open>
  \<open>String.prototype.trim\<close> removes white space and line terminators from both ends.
\<close>

definition isWhiteSpace :: "16 word \<Rightarrow> bool" where
  "isWhiteSpace c =
     (c \<in> set [0x0009, 0x000A, 0x000B, 0x000C, 0x000D, 0x0020, 0x00A0, 0x1680,
                0x2028, 0x2029, 0x202F, 0x205F, 0x3000, 0xFEFF]
      \<or> (0x2000 \<le> c \<and> c \<le> 0x200A))"

definition trim :: "jsstring \<Rightarrow> jsstring" where
  "trim s = rev (dropWhile isWhiteSpace (rev (dropWhile isWhiteSpace s)))"

definition fallbackInstruction :: jsstring where
  "fallbackInstruction = lit ''Please analyze this image and explain it in detail.''"

text \<open>
  \<open>handleSend\<close>, from its two guards to the call of \<open>sendToAI\<close>: an input that is blank
  with no image is ignored; a missing key is reported; otherwise the input text, or the
  fallback instruction when the input text is empty, is sent, and a failure of the call
  is logged by the \<open>catch\<close> block. The arguments are the component's state
  (provider, key, input text, image). The chat messages it adds, the loading flag and
  the history record it writes after a reply are left out.
\<close>

datatype send_outcome =
    NothingSent
  | KeyMissing
  | Replied AIResponse
  | Failed js_error

definition handleSend ::
  "runtime \<Rightarrow> AIProvider \<Rightarrow> jsstring option \<Rightarrow> jsstring \<Rightarrow> jsstring option
     \<Rightarrow> event list \<times> send_outcome" where
  "handleSend rt p apiKey inputText imageUri =
     (if trim inputText = [] \<and> \<not> truthyOpt imageUri then ([], NothingSent)
      else if \<not> truthyOpt apiKey then
        ([AlertShown (lit ''API Key Missing'')
            (JStr (lit ''Please set up your '' @ providerName p
                     @ lit '' API key in the settings.''))],
         KeyMissing)
      else
        (case sendToAI rt p (the apiKey)
                (if inputText \<noteq> [] then inputText else fallbackInstruction) imageUri of
           (evs, Inl e) \<Rightarrow>
             (evs @ [ConsoleError [LStr (lit ''Error sending to AI:''), LErr e]], Failed e)
         | (evs, Inr r) \<Rightarrow> (evs, Replied r)))"

section \<open>The storage service\<close>

subsection \<open>AsyncStorage and JSON\<close>

text \<open>
  A stored string is represented by what \<open>JSON.parse\<close> makes of it: a JSON text by the
  value it denotes, any other string by itself. \<open>JSON.stringify\<close> of an array or an
  object (all the service passes to it) omits the properties whose value is
  \<open>undefined\<close> and writes \<open>null\<close> for such an array element.
\<close>

datatype stored = JsonText json | OtherText jsstring

fun jsonNormal :: "json \<Rightarrow> json" where
  "jsonNormal (JArr xs) = JArr (map (\<lambda>x. if x = JUndefined then JNull else jsonNormal x) xs)"
| "jsonNormal (JObj kvs) =
     JObj (map (\<lambda>(k, v). (k, jsonNormal v)) (filter (\<lambda>(k, v). v \<noteq> JUndefined) kvs))"
| "jsonNormal v = v"

definition JSON_stringify :: "json \<Rightarrow> stored" where
  "JSON_stringify v = JsonText (jsonNormal v)"

text \<open>The wording of the syntax error is the engine's; the service only logs it.\<close>

fun JSON_parse :: "stored \<Rightarrow> js_error + json" where
  "JSON_parse (JsonText v) = Inr v"
| "JSON_parse (OtherText s) = Inl (Error (lit ''JSON Parse error''))"

text \<open>\<open>x ? ... : ...\<close> on what \<open>getItem\<close> resolves with (a string or \<open>null\<close>).\<close>

fun truthyStored :: "stored option \<Rightarrow> bool" where
  "truthyStored None = False"
| "truthyStored (Some (JsonText v)) = True"
| "truthyStored (Some (OtherText s)) = (s \<noteq> [])"

text \<open>
  The device storage: the items, what \<open>console.error\<close> has logged, and a script of
  faults. Each call of AsyncStorage takes the next entry of the script: \<open>Some e\<close> makes
  the call reject with \<open>e\<close>, \<open>None\<close> (or an exhausted script) lets it work.
\<close>

record storage =
  items :: "jsstring \<rightharpoonup> stored"
  faults :: "js_error option list"
  logged :: "log_arg list list"

definition nextFault :: "storage \<Rightarrow> js_error option \<times> storage" where
  "nextFault st = (case faults st of [] \<Rightarrow> (None, st) | f # fs \<Rightarrow> (f, st\<lparr>faults := fs\<rparr>))"

definition AsyncStorage_getItem ::
  "jsstring \<Rightarrow> storage \<Rightarrow> (js_error + stored option) \<times> storage" where
  "AsyncStorage_getItem k st =
     (case nextFault st of
        (Some e, st1) \<Rightarrow> (Inl e, st1)
      | (None, st1) \<Rightarrow> (Inr (items st1 k), st1))"

definition AsyncStorage_setItem ::
  "jsstring \<Rightarrow> stored \<Rightarrow> storage \<Rightarrow> (js_error + unit) \<times> storage" where
  "AsyncStorage_setItem k v st =
     (case nextFault st of
        (Some e, st1) \<Rightarrow> (Inl e, st1)
      | (None, st1) \<Rightarrow> (Inr (), st1\<lparr>items := (items st1)(k \<mapsto> v)\<rparr>))"

definition consoleError :: "log_arg list \<Rightarrow> storage \<Rightarrow> storage" where
  "consoleError args st = st\<lparr>logged := logged st @ [args]\<rparr>"

definition HISTORY :: jsstring where
  "HISTORY = lit ''german_study_history''"

definition SETTINGS :: jsstring where
  "SETTINGS = lit ''german_study_settings''"

subsection \<open>History\<close>

record HistoryItem =
  itemId :: jsstring
  itemPrompt :: jsstring
  itemResponse :: jsstring
  itemProvider :: AIProvider
  itemImageUri :: "jsstring option"
  itemTimestamp :: int

text \<open>The object a history item is at run time; \<open>imageUri\<close> is present only when set.\<close>

definition itemJson :: "HistoryItem \<Rightarrow> json" where
  "itemJson i =
     JObj ([(lit ''id'', JStr (itemId i)),
            (lit ''prompt'', JStr (itemPrompt i)),
            (lit ''response'', JStr (itemResponse i)),
            (lit ''provider'', JStr (providerName (itemProvider i)))]
           @ (case itemImageUri i of None \<Rightarrow> [] | Some u \<Rightarrow> [(lit ''imageUri'', JStr u)])
           @ [(lit ''timestamp'', JNum (itemTimestamp i))])"

text \<open>
  \<open>getHistory\<close>: the parsed item, or the empty array when nothing is stored, and also
  when the read or the parse fails (logged, not rethrown).
\<close>

definition getHistory :: "storage \<Rightarrow> json \<times> storage" where
  "getHistory st =
     (case AsyncStorage_getItem HISTORY st of
        (Inl e, st1) \<Rightarrow>
          (JArr [], consoleError [LStr (lit ''Error getting history:''), LErr e] st1)
      | (Inr history, st1) \<Rightarrow>
          if truthyStored history then
            (case JSON_parse (the history) of
               Inl e \<Rightarrow>
                 (JArr [], consoleError [LStr (lit ''Error getting history:''), LErr e] st1)
             | Inr v \<Rightarrow> (v, st1))
          else (JArr [], st1))"

text \<open>\<open>history.unshift(item)\<close>: only an array has the method.\<close>

fun unshift :: "json \<Rightarrow> json \<Rightarrow> js_error + json" where
  "unshift (JArr xs) item = Inr (JArr (item # xs))"
| "unshift v item = Inl (TypeError v (lit ''unshift''))"

text \<open>\<open>saveHistoryItem\<close>: a failure is logged and rethrown.\<close>

definition saveHistoryItem :: "json \<Rightarrow> storage \<Rightarrow> (js_error + unit) \<times> storage" where
  "saveHistoryItem item st =
     (case getHistory st of
        (history, st1) \<Rightarrow>
          (case unshift history item of
             Inl e \<Rightarrow>
               (Inl e, consoleError [LStr (lit ''Error saving history item:''), LErr e] st1)
           | Inr history' \<Rightarrow>
               (case AsyncStorage_setItem HISTORY (JSON_stringify history') st1 of
                  (Inl e, st2) \<Rightarrow>
                    (Inl e,
                     consoleError [LStr (lit ''Error saving history item:''), LErr e] st2)
                | (Inr u, st2) \<Rightarrow> (Inr (), st2))))"

subsection \<open>Settings\<close>

datatype Theme = light | dark | system

datatype Language = en | de | tr

fun themeName :: "Theme \<Rightarrow> jsstring" where
  "themeName light = lit ''light''"
| "themeName dark = lit ''dark''"
| "themeName system = lit ''system''"

fun languageName :: "Language \<Rightarrow> jsstring" where
  "languageName en = lit ''en''"
| "languageName de = lit ''de''"
| "languageName tr = lit ''tr''"

record Settings =
  defaultProvider :: AIProvider
  theme :: Theme
  language :: Language

definition settingsJson :: "Settings \<Rightarrow> json" where
  "settingsJson s =
     JObj [(lit ''defaultProvider'', JStr (providerName (defaultProvider s))),
           (lit ''theme'', JStr (themeName (theme s))),
           (lit ''language'', JStr (languageName (language s)))]"

definition DEFAULT_SETTINGS :: Settings where
  "DEFAULT_SETTINGS = \<lparr> defaultProvider = anthropic, theme = system, language = en \<rparr>"

text \<open>\<open>Partial<Settings>\<close>: each field named or not.\<close>

record PartialSettings =
  newDefaultProvider :: "AIProvider option"
  newTheme :: "Theme option"
  newLanguage :: "Language option"

definition partialJson :: "PartialSettings \<Rightarrow> json" where
  "partialJson p =
     JObj ((case newDefaultProvider p of None \<Rightarrow> []
            | Some v \<Rightarrow> [(lit ''defaultProvider'', JStr (providerName v))])
         @ (case newTheme p of None \<Rightarrow> [] | Some v \<Rightarrow> [(lit ''theme'', JStr (themeName v))])
         @ (case newLanguage p of None \<Rightarrow> []
            | Some v \<Rightarrow> [(lit ''language'', JStr (languageName v))]))"

text \<open>
  Object spread \<open>{...a, ...b}\<close>: the own properties of each operand are assigned in
  order; assigning an existing key replaces its value in place. An array or a string
  spreads its elements under their indices, other primitives nothing. (Keys are taken
  in insertion order: none of the keys of a settings object is an array index.)
\<close>

fun setProp :: "jsstring \<Rightarrow> json \<Rightarrow> (jsstring \<times> json) list \<Rightarrow> (jsstring \<times> json) list" where
  "setProp k v [] = [(k, v)]"
| "setProp k v ((k', v') # kvs) = (if k' = k then (k, v) # kvs else (k', v') # setProp k v kvs)"

fun ownProps :: "json \<Rightarrow> (jsstring \<times> json) list" where
  "ownProps (JObj kvs) = kvs"
| "ownProps (JArr xs) = zip (map digitsOf [0..<length xs]) xs"
| "ownProps (JStr s) = zip (map digitsOf [0..<length s]) (map (\<lambda>c. JStr [c]) s)"
| "ownProps v = []"

definition spread :: "(jsstring \<times> json) list \<Rightarrow> json \<Rightarrow> (jsstring \<times> json) list" where
  "spread acc v = foldl (\<lambda>a (k, x). setProp k x a) acc (ownProps v)"

text \<open>
  \<open>getSettings\<close>: the parsed item, or the default settings when nothing is stored, and
  also when the read or the parse fails (logged, not rethrown).
\<close>

definition getSettings :: "storage \<Rightarrow> json \<times> storage" where
  "getSettings st =
     (case AsyncStorage_getItem SETTINGS st of
        (Inl e, st1) \<Rightarrow>
          (settingsJson DEFAULT_SETTINGS,
           consoleError [LStr (lit ''Error getting settings:''), LErr e] st1)
      | (Inr settings, st1) \<Rightarrow>
          if truthyStored settings then
            (case JSON_parse (the settings) of
               Inl e \<Rightarrow>
                 (settingsJson DEFAULT_SETTINGS,
                  consoleError [LStr (lit ''Error getting settings:''), LErr e] st1)
             | Inr v \<Rightarrow> (v, st1))
          else (settingsJson DEFAULT_SETTINGS, st1))"

text \<open>\<open>saveSettings\<close>: a failure of the write is logged and rethrown.\<close>

definition saveSettings :: "json \<Rightarrow> storage \<Rightarrow> (js_error + unit) \<times> storage" where
  "saveSettings settings st =
     (case getSettings st of
        (currentSettings, st1) \<Rightarrow>
          (case AsyncStorage_setItem SETTINGS
                  (JSON_stringify (JObj (spread (spread [] currentSettings) settings))) st1 of
             (Inl e, st2) \<Rightarrow>
               (Inl e, consoleError [LStr (lit ''Error saving settings:''), LErr e] st2)
           | (Inr u, st2) \<Rightarrow> (Inr (), st2)))"

section \<open>Notions used in the properties\<close>

text \<open>
  The text of the first content part of the first message of a request body
  (\<open>body.messages[0].content[0].text\<close>), \<open>undefined\<close> when the body has none.
\<close>

definition contentText :: "json \<Rightarrow> json" where
  "contentText b =
     (case bindE (getProp b (lit ''messages'')) (\<lambda>ms.
           bindE (getIndex0 ms) (\<lambda>m.
           bindE (getProp m (lit ''content'')) (\<lambda>c.
           bindE (getIndex0 c) (\<lambda>t.
           getProp t (lit ''text''))))) of
        Inl e \<Rightarrow> JUndefined
      | Inr v \<Rightarrow> v)"

text \<open>The next call of AsyncStorage on this storage rejects.\<close>

definition rejects :: "storage \<Rightarrow> bool" where
  "rejects st = (fst (nextFault st) \<noteq> None)"

text \<open>Settings with the fields a partial update names replaced.\<close>

definition applyPartial :: "Settings \<Rightarrow> PartialSettings \<Rightarrow> Settings" where
  "applyPartial s q =
     \<lparr> defaultProvider = (case newDefaultProvider q of None \<Rightarrow> defaultProvider s | Some v \<Rightarrow> v),
       theme = (case newTheme q of None \<Rightarrow> theme s | Some v \<Rightarrow> v),
       language = (case newLanguage q of None \<Rightarrow> language s | Some v \<Rightarrow> v) \<rparr>"

section \<open>Sample inputs\<close>

text \<open>
  A platform whose image calls succeed and whose transport gives one fixed outcome; the
  request and the reply of the question about \<open>Haus\<close>; a rate-limit reply.
\<close>

definition sampleRuntime :: "transport_outcome \<Rightarrow> runtime" where
  "sampleRuntime out = \<lparr>
     manipulateAsync = (\<lambda>u. Inr (lit ''file:///cache/scaled.jpg'')),
     readAsStringAsync = (\<lambda>u. Inr (lit ''QUJD'')),
     transport = (\<lambda>r. out),
     typeErrorMessage = (\<lambda>v k. lit ''Cannot read property '' @ k) \<rparr>"

definition hausPayload :: json where
  "hausPayload =
     JObj [(lit ''choices'',
        JArr [JObj [(lit ''message'',
          JObj [(lit ''content'', JStr (lit '''Haus' means 'house'.''))])]])]"

definition hausRequest :: "jsstring \<Rightarrow> http_request" where
  "hausRequest apiKey =
     \<lparr> url = lit ''https://api.openai.com/v1/chat/completions'',
       body = JObj [(lit ''model'', JStr (lit ''gpt-4-vision-preview'')),
                    (lit ''messages'',
                       JArr [JObj [(lit ''role'', JStr (lit ''user'')),
                                   (lit ''content'', JStr (lit ''Was bedeutet 'Haus'?''))]]),
                    (lit ''max_tokens'', JNum 1000)],
       reqHeaders = [(lit ''Content-Type'', lit ''application/json''),
                     (lit ''Authorization'', lit ''Bearer '' @ apiKey)] \<rparr>"

definition rateLimitedPayload :: json where
  "rateLimitedPayload =
     JObj [(lit ''error'', JObj [(lit ''message'', JStr (lit ''rate limited''))])]"

text \<open>
  Two history items, a storage holding the older one, a storage holding settings, and
  an update naming the language only. The argument is the script of faults.
\<close>

definition oldItem :: HistoryItem where
  "oldItem = \<lparr> itemId = lit ''a1'', itemPrompt = lit ''Was bedeutet 'Haus'?'',
      itemResponse = lit '''Haus' means 'house'.'', itemProvider = openai,
      itemImageUri = None, itemTimestamp = 1700000000000 \<rparr>"

definition newItem :: HistoryItem where
  "newItem = \<lparr> itemId = lit ''b2'', itemPrompt = lit ''Was ist das?'',
      itemResponse = lit ''Ein Arbeitsblatt.'', itemProvider = anthropic,
      itemImageUri = Some (lit ''file:///cache/scaled.jpg''),
      itemTimestamp = 1700000060000 \<rparr>"

definition historyStore :: "js_error option list \<Rightarrow> storage" where
  "historyStore fs = \<lparr> items = [HISTORY \<mapsto> JsonText (JArr [itemJson oldItem])],
      faults = fs, logged = [] \<rparr>"

definition settingsStore :: "js_error option list \<Rightarrow> storage" where
  "settingsStore fs = \<lparr> items = [SETTINGS \<mapsto> JsonText (settingsJson
        \<lparr> defaultProvider = openai, theme = dark, language = de \<rparr>)],
      faults = fs, logged = [] \<rparr>"

definition languageOnly :: PartialSettings where
  "languageOnly = \<lparr> newDefaultProvider = None, newTheme = None, newLanguage = Some tr \<rparr>"

text \<open>An error reply whose \<open>error\<close> has a type and no message.\<close>

definition errorWithoutMessagePayload :: json where
  "errorWithoutMessagePayload =
     JObj [(lit ''error'', JObj [(lit ''type'', JStr (lit ''invalid_request_error''))])]"

section \<open>Properties\<close>

lemma lit_eq_iff [simp]: "lit a = lit b \<longleftrightarrow> a = b"
proof -
  have small: "unat (of_char c :: 16 word) = of_char c" for c
  proof -
    have "(of_char c :: nat) < 2 ^ 16"
      by (rule less_trans [OF nat_of_char_less_256]) simp
    moreover have "(of_char c :: 16 word) = of_nat (of_char c)"
      by (simp add: of_nat_of_char)
    ultimately show ?thesis
      by (simp add: unat_of_nat take_bit_nat_eq_self)
  qed
  have "inj (\<lambda>c. (of_char c :: 16 word))"
  proof (rule injI)
    fix x y :: char
    assume "(of_char x :: 16 word) = of_char y"
    then have "unat (of_char x :: 16 word) = unat (of_char y :: 16 word)"
      by simp
    then have "(of_char x :: nat) = of_char y"
      by (simp only: small)
    then show "x = y"
      by simp
  qed
  then show ?thesis
    by (simp add: lit_def inj_map_eq_map)
qed

lemma lit_Nil [simp]: "lit [] = []"
  by (simp add: lit_def)

lemma lit_eq_Nil [simp]: "lit a = [] \<longleftrightarrow> a = []"
  by (simp add: lit_def)

lemma formatRequestBody_no_post:
  "filter isHttpPost (fst (formatRequestBody rt p prompt imageUri)) = []"
  by (simp add: formatRequestBody_def imageToBase64_def split: sum.splits prod.splits)

lemma sendToAI_http_error:
  assumes "apiKey \<noteq> []"
    and "formatRequestBody rt p prompt imageUri = (evs, Inr (b, s))"
    and "transport rt (requestFor p apiKey b) = Responded status d"
    and "status < 200 \<or> 300 \<le> status"
  shows "sendToAI rt p apiKey prompt imageUri =
     (evs @ [HttpPost (requestFor p apiKey b),
        ConsoleError [LStr (lit ''Error with '' @ providerName p @ lit '' API:''),
                      LErr (HttpError status d)],
        ConsoleError [LStr (lit ''Response data:''), LVal d],
        ConsoleError [LStr (lit ''Response status:''), LVal (JNum status)],
        AlertShown (providerName p @ lit '' API Error'') (errorMessage status d)],
      Inl (HttpError status d))"
  using assms
  by (auto simp add: sendToAI_def sendToAI_try_def axios_post_def)

lemma errorMessage_provider:
  "m \<noteq> [] \<Longrightarrow>
   errorMessage status (JObj [(lit ''error'', JObj [(lit ''message'', JStr m)])]) = JStr m"
  by (simp add: errorMessage_def js_or_def)

lemma errorMessage_generic:
  "\<not> truthy (optProp d (lit ''error'')) \<Longrightarrow>
   errorMessage status d = JStr (lit ''Error: '' @ numberToString status)"
  by (cases "optProp d (lit ''error'')") (simp_all add: errorMessage_def js_or_def)

lemma formatRequestBody_haus: "formatRequestBody rt openai (lit ''Was bedeutet 'Haus'?'') None
   = ([], Inr (body (hausRequest k), None))"
  by (simp add: formatRequestBody_def hausRequest_def userMessage_def)

lemma requestFor_haus: "requestFor openai k (body (hausRequest k)) = hausRequest k"
  by (simp add: requestFor_def hausRequest_def)

lemma contentText_imageBody: "contentText (imageBody p prompt b64) = JStr (defaultPrompt @ prompt)"
  by (cases p) (simp_all add: contentText_def bindE_def userMessage_def textPart_def)

lemma catch_no_post: "filter isHttpPost (sendToAI_catch rt p e) = []"
  by (cases e) simp_all

lemma sendToAI_posts_once:
  assumes "apiKey \<noteq> []"
    and "formatRequestBody rt p prompt imageUri = (evs, Inr (b, s))"
  shows "filter isHttpPost (fst (sendToAI rt p apiKey prompt imageUri))
     = [HttpPost (requestFor p apiKey b)]"
proof -
  have np: "filter isHttpPost evs = []"
    using formatRequestBody_no_post [of rt p prompt imageUri] assms(2) by simp
  show ?thesis
    using assms np
    by (simp add: sendToAI_def sendToAI_try_def catch_no_post split: sum.splits prod.splits)
qed

lemma formatRequestBody_image:
  assumes "uri \<noteq> []"
    and "manipulateAsync rt uri = Inr scaledUri"
    and "readAsStringAsync rt scaledUri = Inr base64Image"
  shows "formatRequestBody rt p prompt (Some uri) =
     ([ManipulateImage uri, ReadFile scaledUri],
      Inr (imageBody p prompt base64Image, Some scaledUri))"
  using assms by (simp add: formatRequestBody_def imageToBase64_def)

lemma defaultPrompt_nonempty: "defaultPrompt \<noteq> []"
  by (simp add: defaultPrompt_def)

lemma handleSend_sends:
  assumes "truthyOpt apiKey" and "trim inputText \<noteq> [] \<or> truthyOpt imageUri"
  shows "filter isHttpPost (fst (handleSend rt p apiKey inputText imageUri))
     = filter isHttpPost
         (fst (sendToAI rt p (the apiKey)
                 (if inputText \<noteq> [] then inputText else fallbackInstruction) imageUri))"
  using assms by (auto simp add: handleSend_def split: prod.splits sum.splits)

lemma jsonNormal_itemJson: "jsonNormal (itemJson i) = itemJson i"
  by (simp add: itemJson_def split: option.splits)

lemma itemJson_defined: "itemJson i \<noteq> JUndefined"
  by (simp add: itemJson_def)

lemma jsonNormal_history: "jsonNormal (JArr (map itemJson h)) = JArr (map itemJson h)"
  by (simp add: jsonNormal_itemJson itemJson_defined)

lemma nextFault_works: "\<not> rejects st \<Longrightarrow> nextFault st = (None, st\<lparr>faults := tl (faults st)\<rparr>)"
  by (cases "faults st") (simp_all add: rejects_def nextFault_def)

lemma nextFault_rejects: "rejects st \<Longrightarrow> \<exists>e. nextFault st = (Some e, st\<lparr>faults := tl (faults st)\<rparr>)"
  by (cases "faults st") (auto simp add: rejects_def nextFault_def)

lemma getItem_works:
  "\<not> rejects st \<Longrightarrow> AsyncStorage_getItem k st = (Inr (items st k), st\<lparr>faults := tl (faults st)\<rparr>)"
  by (simp add: AsyncStorage_getItem_def nextFault_works)

lemma setItem_works:
  "\<not> rejects st \<Longrightarrow>
   AsyncStorage_setItem k v st = (Inr (), st\<lparr>faults := tl (faults st), items := (items st)(k \<mapsto> v)\<rparr>)"
  by (simp add: AsyncStorage_setItem_def nextFault_works)

lemma setItem_rejects:
  "rejects st \<Longrightarrow> \<exists>e. fst (AsyncStorage_setItem k v st) = Inl e"
  using nextFault_rejects [of st] by (auto simp add: AsyncStorage_setItem_def)

lemma getHistory_works:
  "\<not> rejects st \<Longrightarrow> items st HISTORY = Some (JsonText v) \<Longrightarrow>
   getHistory st = (v, st\<lparr>faults := tl (faults st)\<rparr>)"
  by (simp add: getHistory_def getItem_works)

lemma getHistory_nothing:
  "\<not> rejects st \<Longrightarrow> items st HISTORY = None \<Longrightarrow>
   getHistory st = (JArr [], st\<lparr>faults := tl (faults st)\<rparr>)"
  by (simp add: getHistory_def getItem_works)

lemma saveHistoryItem_array:
  assumes "getHistory st = (JArr xs, st1)"
  shows "saveHistoryItem item st =
     (case AsyncStorage_setItem HISTORY (JSON_stringify (JArr (item # xs))) st1 of
        (Inl e, st2) \<Rightarrow>
          (Inl e, consoleError [LStr (lit ''Error saving history item:''), LErr e] st2)
      | (Inr u, st2) \<Rightarrow> (Inr (), st2))"
  using assms by (simp add: saveHistoryItem_def)

lemma saveHistoryItem_stored:
  assumes g: "getHistory st = (JArr xs, st1)"
    and ok: "fst (saveHistoryItem item st) = Inr ()"
  shows "saveHistoryItem item st =
     (Inr (), st1\<lparr>faults := tl (faults st1),
                  items := (items st1)(HISTORY \<mapsto> JSON_stringify (JArr (item # xs)))\<rparr>)"
proof (cases "rejects st1")
  case True
  then obtain e where "fst (AsyncStorage_setItem HISTORY (JSON_stringify (JArr (item # xs))) st1) = Inl e"
    using setItem_rejects by blast
  then have "fst (saveHistoryItem item st) = Inl e"
    by (cases "AsyncStorage_setItem HISTORY (JSON_stringify (JArr (item # xs))) st1")
      (simp add: saveHistoryItem_array [OF g])
  with ok show ?thesis by simp
next
  case False
  then show ?thesis
    by (simp add: saveHistoryItem_array [OF g] setItem_works)
qed

lemma spread_settings:
  "spread (spread [] (settingsJson s)) (partialJson q) =
     [(lit ''defaultProvider'', JStr (providerName (defaultProvider (applyPartial s q)))),
      (lit ''theme'', JStr (themeName (theme (applyPartial s q)))),
      (lit ''language'', JStr (languageName (language (applyPartial s q))))]"
proof (cases "newDefaultProvider q"; cases "newTheme q"; cases "newLanguage q")
qed (simp_all add: spread_def settingsJson_def partialJson_def applyPartial_def)

lemma saved_settings:
  "JSON_stringify (JObj (spread (spread [] (settingsJson s)) (partialJson q))) =
   JsonText (settingsJson (applyPartial s q))"
  unfolding JSON_stringify_def spread_settings
  by (simp add: settingsJson_def)

lemma getSettings_works:
  "\<not> rejects st \<Longrightarrow> items st SETTINGS = Some (JsonText v) \<Longrightarrow>
   getSettings st = (v, st\<lparr>faults := tl (faults st)\<rparr>)"
  by (simp add: getSettings_def getItem_works)

lemma getSettings_nothing:
  "\<not> rejects st \<Longrightarrow> items st SETTINGS = None \<Longrightarrow>
   getSettings st = (settingsJson DEFAULT_SETTINGS, st\<lparr>faults := tl (faults st)\<rparr>)"
  by (simp add: getSettings_def getItem_works)

lemma saveSettings_stored:
  assumes g: "getSettings st = (cur, st1)"
    and ok: "fst (saveSettings q st) = Inr ()"
  shows "saveSettings q st =
     (Inr (), st1\<lparr>faults := tl (faults st1),
                  items := (items st1)(SETTINGS \<mapsto>
                     JSON_stringify (JObj (spread (spread [] cur) q)))\<rparr>)"
proof (cases "rejects st1")
  case True
  then obtain e where
    "fst (AsyncStorage_setItem SETTINGS (JSON_stringify (JObj (spread (spread [] cur) q))) st1) = Inl e"
    using setItem_rejects by blast
  then have "fst (saveSettings q st) = Inl e"
    by (cases "AsyncStorage_setItem SETTINGS (JSON_stringify (JObj (spread (spread [] cur) q))) st1")
      (simp add: saveSettings_def g)
  with ok show ?thesis by simp
next
  case False
  then show ?thesis
    by (simp add: saveSettings_def g setItem_works)
qed

lemma getItem_rejected:
  "rejects st \<Longrightarrow>
   \<exists>e. AsyncStorage_getItem k st = (Inl e, st\<lparr>faults := tl (faults st)\<rparr>)"
  using nextFault_rejects [of st] by (auto simp add: AsyncStorage_getItem_def)

lemma getHistory_rejected:
  "rejects st \<Longrightarrow>
   \<exists>e. getHistory st =
     (JArr [], consoleError [LStr (lit ''Error getting history:''), LErr e]
                 (st\<lparr>faults := tl (faults st)\<rparr>))"
  using getItem_rejected [of st HISTORY] by (auto simp add: getHistory_def)

lemma getSettings_rejected:
  "rejects st \<Longrightarrow>
   \<exists>e. getSettings st =
     (settingsJson DEFAULT_SETTINGS,
      consoleError [LStr (lit ''Error getting settings:''), LErr e]
        (st\<lparr>faults := tl (faults st)\<rparr>))"
  using getItem_rejected [of st SETTINGS] by (auto simp add: getSettings_def)

text \<open>
  C1. For every provider, with an empty credential \<open>sendToAI\<close> throws the
  missing-credential error; it does so whatever the platform would answer, and the run
  consists of the handler's log line and alert only: no image transformation, no file
  read and no network request.
\<close>

theorem C1_empty_credential_fails_before_any_call:
  "snd (sendToAI rt p [] prompt imageUri)
     = Inl (Error (lit ''API key for '' @ providerName p @ lit '' is not set''))
   \<and> fst (sendToAI rt p [] prompt imageUri)
     = [ConsoleError [LStr (lit ''Error with '' @ providerName p @ lit '' API:''),
                      LErr (Error (lit ''API key for '' @ providerName p @ lit '' is not set''))],
        AlertShown (lit ''Error'')
          (JStr (lit ''API key for '' @ providerName p @ lit '' is not set''))]
   \<and> filter isExternalCall (fst (sendToAI rt p [] prompt imageUri)) = []"
  by (simp add: sendToAI_def sendToAI_try_def)

text \<open>
  C2. For provider \<open>openai\<close>, any non-empty credential, the prompt
  \<open>Was bedeutet 'Haus'?\<close> and no image: the request posted is the provider's URL and
  headers with a body of exactly one user message whose content is the prompt, and when
  that request is answered with a 2xx status and the payload
  \<open>{choices:[{message:{content:"'Haus' means 'house'."}}]}\<close>, \<open>sendToAI\<close> returns the
  result with that text and provider \<open>openai\<close>.
\<close>

theorem C2_openai_text_question_answered:
  assumes "apiKey \<noteq> []"
    and "transport rt (hausRequest apiKey) = Responded status hausPayload"
    and "200 \<le> status" and "status < 300"
  shows "sendToAI rt openai apiKey (lit ''Was bedeutet 'Haus'?'') None =
     ([HttpPost (hausRequest apiKey)],
      Inr \<lparr> text' = JStr (lit '''Haus' means 'house'.''), provider = openai,
            scaledImageUri = None \<rparr>)"
  using assms
  by (simp add: sendToAI_def sendToAI_try_def formatRequestBody_def userMessage_def
      requestFor_def hausRequest_def axios_post_def hausPayload_def bindE_def orUndefined_def)

theorem C2_witness:
  "sendToAI (sampleRuntime (Responded 200 hausPayload)) openai (lit ''sk-test'')
     (lit ''Was bedeutet 'Haus'?'') None =
     ([HttpPost (hausRequest (lit ''sk-test''))],
      Inr \<lparr> text' = JStr (lit '''Haus' means 'house'.''), provider = openai,
            scaledImageUri = None \<rparr>)"
  using C2_openai_text_question_answered
    [of "lit ''sk-test''" "sampleRuntime (Responded 200 hausPayload)" 200]
  by (simp add: sampleRuntime_def)

text \<open>
  C3, as the claim states it, fails: with an empty prompt and an image,
  \<open>formatRequestBody\<close> substitutes nothing. The text part of the body is the preamble
  alone, and the words of the fallback instruction are nowhere in it.
\<close>

theorem C3_counterexample:
  "formatRequestBody (sampleRuntime NoResponse) openai [] (Some (lit ''file:///photo.png'')) =
     ([ManipulateImage (lit ''file:///photo.png''), ReadFile (lit ''file:///cache/scaled.jpg'')],
      Inr (JObj [(lit ''model'', JStr (lit ''gpt-4-vision-preview'')),
                 (lit ''messages'',
                    JArr [JObj [(lit ''role'', JStr (lit ''user'')),
                       (lit ''content'',
                          JArr [JObj [(lit ''type'', JStr (lit ''text'')),
                                      (lit ''text'', JStr defaultPrompt)],
                                JObj [(lit ''type'', JStr (lit ''image_url'')),
                                      (lit ''image_url'',
                                         JObj [(lit ''url'',
                                            JStr (lit ''data:image/jpeg;base64,QUJD''))])]])]]),
                 (lit ''max_tokens'', JNum 1000)],
           Some (lit ''file:///cache/scaled.jpg'')))
   \<and> \<not> sublist (lit ''analyze this image and explain it'') defaultPrompt"
proof
  show "formatRequestBody (sampleRuntime NoResponse) openai [] (Some (lit ''file:///photo.png'')) =
     ([ManipulateImage (lit ''file:///photo.png''), ReadFile (lit ''file:///cache/scaled.jpg'')],
      Inr (JObj [(lit ''model'', JStr (lit ''gpt-4-vision-preview'')),
                 (lit ''messages'',
                    JArr [JObj [(lit ''role'', JStr (lit ''user'')),
                       (lit ''content'',
                          JArr [JObj [(lit ''type'', JStr (lit ''text'')),
                                      (lit ''text'', JStr defaultPrompt)],
                                JObj [(lit ''type'', JStr (lit ''image_url'')),
                                      (lit ''image_url'',
                                         JObj [(lit ''url'',
                                            JStr (lit ''data:image/jpeg;base64,QUJD''))])]])]]),
                 (lit ''max_tokens'', JNum 1000)],
           Some (lit ''file:///cache/scaled.jpg'')))"
    by (simp add: formatRequestBody_def imageToBase64_def sampleRuntime_def userMessage_def
        textPart_def imageUrlPart_def)
      (simp add: lit_def)
  show "\<not> sublist (lit ''analyze this image and explain it'') defaultPrompt"
    by code_simp
qed

text \<open>
  C3, amended. The substitution is made by the caller, not by the construction of the
  body. With an empty prompt and an image, \<open>formatRequestBody\<close> builds, for every
  provider, a body whose text part is the fixed preamble alone, which is not empty.
  \<open>handleSend\<close>, called with an empty input text, an image and a key, passes the
  fallback instruction \<open>Please analyze this image and explain it in detail.\<close> as the
  prompt, so the one request it posts has the preamble followed by that instruction as
  its text part.
\<close>

theorem C3_fallback_is_substituted_by_handleSend:
  assumes "apiKey \<noteq> []" and "uri \<noteq> []"
    and "manipulateAsync rt uri = Inr scaledUri"
    and "readAsStringAsync rt scaledUri = Inr base64Image"
  shows "formatRequestBody rt p [] (Some uri) =
       ([ManipulateImage uri, ReadFile scaledUri],
        Inr (imageBody p [] base64Image, Some scaledUri))
    \<and> contentText (imageBody p [] base64Image) = JStr defaultPrompt
    \<and> defaultPrompt \<noteq> []
    \<and> filter isHttpPost (fst (handleSend rt p (Some apiKey) [] (Some uri)))
       = [HttpPost (requestFor p apiKey (imageBody p fallbackInstruction base64Image))]
    \<and> contentText (imageBody p fallbackInstruction base64Image)
       = JStr (defaultPrompt
               @ lit ''Please analyze this image and explain it in detail.'')"
proof -
  have f: "formatRequestBody rt p prompt (Some uri) =
     ([ManipulateImage uri, ReadFile scaledUri],
      Inr (imageBody p prompt base64Image, Some scaledUri))" for prompt
    using assms(2-4) by (rule formatRequestBody_image)
  have h: "filter isHttpPost (fst (handleSend rt p (Some apiKey) [] (Some uri)))
     = filter isHttpPost (fst (sendToAI rt p apiKey fallbackInstruction (Some uri)))"
    using handleSend_sends [of "Some apiKey" "[]" "Some uri" rt p] assms(1,2) by simp
  have t: "contentText (imageBody p fallbackInstruction base64Image)
       = JStr (defaultPrompt @ lit ''Please analyze this image and explain it in detail.'')"
    by (simp add: contentText_imageBody fallbackInstruction_def)
  have t0: "contentText (imageBody p [] base64Image) = JStr defaultPrompt"
    by (simp add: contentText_imageBody)
  show ?thesis
    using sendToAI_posts_once [OF assms(1) f [of fallbackInstruction]]
    by (simp add: f h t t0 defaultPrompt_nonempty)
qed

theorem C3_witness:
  "formatRequestBody (sampleRuntime NoResponse) anthropic [] (Some (lit ''file:///photo.png'')) =
       ([ManipulateImage (lit ''file:///photo.png''), ReadFile (lit ''file:///cache/scaled.jpg'')],
        Inr (imageBody anthropic [] (lit ''QUJD''), Some (lit ''file:///cache/scaled.jpg'')))
    \<and> contentText (imageBody anthropic [] (lit ''QUJD'')) = JStr defaultPrompt
    \<and> filter isHttpPost
         (fst (handleSend (sampleRuntime NoResponse) anthropic (Some (lit ''sk-test'')) []
                 (Some (lit ''file:///photo.png''))))
       = [HttpPost (requestFor anthropic (lit ''sk-test'')
                      (imageBody anthropic fallbackInstruction (lit ''QUJD'')))]
    \<and> contentText (imageBody anthropic fallbackInstruction (lit ''QUJD''))
       = JStr (defaultPrompt
               @ lit ''Please analyze this image and explain it in detail.'')"
proof -
  have k: "lit ''sk-test'' \<noteq> []" and u: "lit ''file:///photo.png'' \<noteq> []"
    by simp_all
  have m: "manipulateAsync (sampleRuntime NoResponse) (lit ''file:///photo.png'')
      = Inr (lit ''file:///cache/scaled.jpg'')"
    by (simp add: sampleRuntime_def)
  have r: "readAsStringAsync (sampleRuntime NoResponse) (lit ''file:///cache/scaled.jpg'')
      = Inr (lit ''QUJD'')"
    by (simp add: sampleRuntime_def)
  show ?thesis
    using C3_fallback_is_substituted_by_handleSend [OF k u m r, of anthropic]
    by simp
qed

text \<open>
  C4, as the claim states it, fails: a payload in which only the last key of the path is
  missing makes \<open>parseResponse\<close> return \<open>undefined\<close>; nothing is raised.
\<close>

theorem C4_counterexample:
  "parseResponse openai
     (JObj [(lit ''choices'', JArr [JObj [(lit ''message'', JObj [])]])]) = Inr JUndefined"
  by (simp add: bindE_def)

text \<open>
  C4, amended. For every provider, \<open>parseResponse\<close> on a well-formed payload (an object
  with \<open>choices[0].message.content\<close>, for Anthropic \<open>content[0].text\<close>, a string)
  returns exactly that string. On a payload that lacks a key before the last one of the
  path (no \<open>choices\<close>, an empty \<open>choices\<close>, a first choice with no \<open>message\<close>; for
  Anthropic no \<open>content\<close>, an empty \<open>content\<close>) the property read throws a TypeError.
  On a payload that lacks only the last key (\<open>content\<close>, for Anthropic \<open>text\<close>) it
  returns \<open>undefined\<close> and throws nothing.
\<close>

theorem C4_parseResponse_by_payload_shape:
  "(p \<noteq> anthropic \<and> map_of kvs (lit ''choices'') = Some (JArr (JObj c # cs))
      \<and> map_of c (lit ''message'') = Some (JObj m)
      \<and> map_of m (lit ''content'') = Some (JStr t)
      \<longrightarrow> parseResponse p (JObj kvs) = Inr (JStr t))
 \<and> (map_of kvs (lit ''content'') = Some (JArr (JObj c # cs))
      \<and> map_of c (lit ''text'') = Some (JStr t)
      \<longrightarrow> parseResponse anthropic (JObj kvs) = Inr (JStr t))
 \<and> (p \<noteq> anthropic \<and> map_of kvs (lit ''choices'') = None
      \<longrightarrow> parseResponse p (JObj kvs) = Inl (TypeError JUndefined (lit ''0'')))
 \<and> (p \<noteq> anthropic \<and> map_of kvs (lit ''choices'') = Some (JArr [])
      \<longrightarrow> parseResponse p (JObj kvs) = Inl (TypeError JUndefined (lit ''message'')))
 \<and> (p \<noteq> anthropic \<and> map_of kvs (lit ''choices'') = Some (JArr (JObj c # cs))
      \<and> map_of c (lit ''message'') = None
      \<longrightarrow> parseResponse p (JObj kvs) = Inl (TypeError JUndefined (lit ''content'')))
 \<and> (p \<noteq> anthropic \<and> map_of kvs (lit ''choices'') = Some (JArr (JObj c # cs))
      \<and> map_of c (lit ''message'') = Some (JObj m) \<and> map_of m (lit ''content'') = None
      \<longrightarrow> parseResponse p (JObj kvs) = Inr JUndefined)
 \<and> (map_of kvs (lit ''content'') = None
      \<longrightarrow> parseResponse anthropic (JObj kvs) = Inl (TypeError JUndefined (lit ''0'')))
 \<and> (map_of kvs (lit ''content'') = Some (JArr [])
      \<longrightarrow> parseResponse anthropic (JObj kvs) = Inl (TypeError JUndefined (lit ''text'')))
 \<and> (map_of kvs (lit ''content'') = Some (JArr (JObj c # cs)) \<and> map_of c (lit ''text'') = None
      \<longrightarrow> parseResponse anthropic (JObj kvs) = Inr JUndefined)"
  by (cases p) (simp_all add: bindE_def)

theorem C4_witness:
  "parseResponse openai hausPayload = Inr (JStr (lit '''Haus' means 'house'.''))
   \<and> parseResponse anthropic
        (JObj [(lit ''content'', JArr [JObj [(lit ''type'', JStr (lit ''text'')),
                                             (lit ''text'', JStr (lit ''Hallo''))]])])
      = Inr (JStr (lit ''Hallo''))
   \<and> parseResponse perplexity (JObj [(lit ''error'', JStr (lit ''overloaded''))])
      = Inl (TypeError JUndefined (lit ''0''))
   \<and> parseResponse openai (JObj [(lit ''choices'', JArr [])])
      = Inl (TypeError JUndefined (lit ''message''))
   \<and> parseResponse openai (JObj [(lit ''choices'', JArr [JObj [(lit ''index'', JNum 0)]])])
      = Inl (TypeError JUndefined (lit ''content''))
   \<and> parseResponse perplexity
        (JObj [(lit ''choices'',
           JArr [JObj [(lit ''message'', JObj [(lit ''role'', JStr (lit ''assistant''))])]])])
      = Inr JUndefined
   \<and> parseResponse anthropic (JObj [(lit ''type'', JStr (lit ''error''))])
      = Inl (TypeError JUndefined (lit ''0''))
   \<and> parseResponse anthropic (JObj [(lit ''content'', JArr [])])
      = Inl (TypeError JUndefined (lit ''text''))
   \<and> parseResponse anthropic
        (JObj [(lit ''content'', JArr [JObj [(lit ''type'', JStr (lit ''text''))]])])
      = Inr JUndefined"
  using
    C4_parseResponse_by_payload_shape [of openai
      "[(lit ''choices'', JArr [JObj [(lit ''message'',
          JObj [(lit ''content'', JStr (lit '''Haus' means 'house'.''))])]])]"
      "[(lit ''message'', JObj [(lit ''content'', JStr (lit '''Haus' means 'house'.''))])]"
      "[]" "[(lit ''content'', JStr (lit '''Haus' means 'house'.''))]"
      "lit '''Haus' means 'house'.''"]
    C4_parseResponse_by_payload_shape [of openai
      "[(lit ''content'', JArr [JObj [(lit ''type'', JStr (lit ''text'')),
                                      (lit ''text'', JStr (lit ''Hallo''))]])]"
      "[(lit ''type'', JStr (lit ''text'')), (lit ''text'', JStr (lit ''Hallo''))]" "[]"
      "[]" "lit ''Hallo''"]
    C4_parseResponse_by_payload_shape [of perplexity
      "[(lit ''error'', JStr (lit ''overloaded''))]" "[]" "[]" "[]" "[]"]
    C4_parseResponse_by_payload_shape [of openai
      "[(lit ''choices'', JArr [])]" "[]" "[]" "[]" "[]"]
    C4_parseResponse_by_payload_shape [of openai
      "[(lit ''choices'', JArr [JObj [(lit ''index'', JNum 0)]])]"
      "[(lit ''index'', JNum 0)]" "[]" "[]" "[]"]
    C4_parseResponse_by_payload_shape [of perplexity
      "[(lit ''choices'',
          JArr [JObj [(lit ''message'', JObj [(lit ''role'', JStr (lit ''assistant''))])]])]"
      "[(lit ''message'', JObj [(lit ''role'', JStr (lit ''assistant''))])]" "[]"
      "[(lit ''role'', JStr (lit ''assistant''))]" "[]"]
    C4_parseResponse_by_payload_shape [of openai
      "[(lit ''type'', JStr (lit ''error''))]" "[]" "[]" "[]" "[]"]
    C4_parseResponse_by_payload_shape [of openai
      "[(lit ''content'', JArr [])]" "[]" "[]" "[]" "[]"]
    C4_parseResponse_by_payload_shape [of openai
      "[(lit ''content'', JArr [JObj [(lit ''type'', JStr (lit ''text''))]])]"
      "[(lit ''type'', JStr (lit ''text''))]" "[]" "[]" "[]"]
  by (simp add: hausPayload_def)

text \<open>
  C5, as the claim states it, fails: with a credential, no image and an empty prompt,
  \<open>sendToAI\<close> posts the request, whose one message has empty content, and returns the
  reply.
\<close>

theorem C5_counterexample:
  "sendToAI (sampleRuntime (Responded 200 hausPayload)) openai (lit ''sk-test'') [] None =
     ([HttpPost \<lparr> url = lit ''https://api.openai.com/v1/chat/completions'',
         body = JObj [(lit ''model'', JStr (lit ''gpt-4-vision-preview'')),
                      (lit ''messages'',
                         JArr [JObj [(lit ''role'', JStr (lit ''user'')),
                                     (lit ''content'', JStr [])]]),
                      (lit ''max_tokens'', JNum 1000)],
         reqHeaders = [(lit ''Content-Type'', lit ''application/json''),
                       (lit ''Authorization'', lit ''Bearer sk-test'')] \<rparr>],
      Inr \<lparr> text' = JStr (lit '''Haus' means 'house'.''), provider = openai,
            scaledImageUri = None \<rparr>)"
  by (simp add: sendToAI_def sendToAI_try_def formatRequestBody_def userMessage_def
      requestFor_def axios_post_def hausPayload_def bindE_def orUndefined_def
      sampleRuntime_def lit_def)

text \<open>
  C5, amended. The adapter does not check for an empty request: for every provider and
  every non-empty credential, \<open>sendToAI\<close> with no image and an empty prompt posts exactly
  one request, whose single user message has the empty string as content. The empty
  request is stopped by the caller: when the trimmed input text is empty and no image is
  attached, \<open>handleSend\<close> returns at once, with no alert and without calling \<open>sendToAI\<close>.
\<close>

theorem C5_empty_request_is_stopped_by_handleSend_only:
  "(apiKey \<noteq> [] \<longrightarrow>
      filter isHttpPost (fst (sendToAI rt p apiKey [] None))
        = [HttpPost (requestFor p apiKey
             (JObj ([(lit ''model'', JStr (model (API_CONFIG p))),
                     (lit ''messages'',
                        JArr [JObj [(lit ''role'', JStr (lit ''user'')),
                                    (lit ''content'', JStr [])]])]
                    @ (case p of perplexity \<Rightarrow> []
                       | _ \<Rightarrow> [(lit ''max_tokens'', JNum 1000)]))))])
   \<and> (trim inputText = [] \<and> \<not> truthyOpt imageUri \<longrightarrow>
        handleSend rt p key inputText imageUri = ([], NothingSent))"
proof -
  have f: "formatRequestBody rt p [] None = ([], Inr (textBody p [], None))"
    by (simp add: formatRequestBody_def)
  have b: "textBody p [] =
     JObj ([(lit ''model'', JStr (model (API_CONFIG p))),
            (lit ''messages'',
               JArr [JObj [(lit ''role'', JStr (lit ''user'')), (lit ''content'', JStr [])]])]
           @ (case p of perplexity \<Rightarrow> [] | _ \<Rightarrow> [(lit ''max_tokens'', JNum 1000)]))"
    by (cases p) (simp_all add: userMessage_def)
  show ?thesis
    using sendToAI_posts_once [OF _ f, of apiKey]
    by (simp add: b handleSend_def)
qed

theorem C5_witness:
  "filter isHttpPost (fst (sendToAI (sampleRuntime NoResponse) perplexity (lit ''pplx-1'') [] None))
     = [HttpPost (requestFor perplexity (lit ''pplx-1'')
          (JObj [(lit ''model'', JStr (lit ''sonar'')),
                 (lit ''messages'',
                    JArr [JObj [(lit ''role'', JStr (lit ''user'')),
                                (lit ''content'', JStr [])]])]))]
   \<and> handleSend (sampleRuntime NoResponse) perplexity (Some (lit ''pplx-1'')) (lit ''  '') None
     = ([], NothingSent)"
proof -
  have t: "trim (lit ''  '') = []"
    by (simp add: trim_def lit_def isWhiteSpace_def)
  show ?thesis
    using C5_empty_request_is_stopped_by_handleSend_only
      [of "lit ''pplx-1''" "sampleRuntime NoResponse" perplexity "lit ''  ''" None
          "Some (lit ''pplx-1'')"]
    by (simp add: t)
qed

text \<open>
  C6. For each of the three providers, the body built for a prompt with no image
  (\<open>null\<close>, or the empty string, which is falsy as well) is the provider's model and
  exactly one message, of role \<open>user\<close>, whose content is the prompt string itself:
  no content parts, no image field. \<open>max_tokens\<close> is 1000 for OpenAI and Anthropic,
  the two providers the source gives the parameter; the Perplexity body has none. No
  platform call is made.
\<close>

theorem C6_text_only_body:
  "formatRequestBody rt openai prompt None =
     ([], Inr (JObj [(lit ''model'', JStr (lit ''gpt-4-vision-preview'')),
                     (lit ''messages'',
                        JArr [JObj [(lit ''role'', JStr (lit ''user'')),
                                    (lit ''content'', JStr prompt)]]),
                     (lit ''max_tokens'', JNum 1000)], None))
   \<and> formatRequestBody rt anthropic prompt None =
     ([], Inr (JObj [(lit ''model'', JStr (lit ''claude-3-opus-20240229'')),
                     (lit ''messages'',
                        JArr [JObj [(lit ''role'', JStr (lit ''user'')),
                                    (lit ''content'', JStr prompt)]]),
                     (lit ''max_tokens'', JNum 1000)], None))
   \<and> formatRequestBody rt perplexity prompt None =
     ([], Inr (JObj [(lit ''model'', JStr (lit ''sonar'')),
                     (lit ''messages'',
                        JArr [JObj [(lit ''role'', JStr (lit ''user'')),
                                    (lit ''content'', JStr prompt)]])], None))
   \<and> formatRequestBody rt p prompt (Some []) = formatRequestBody rt p prompt None"
  by (simp add: formatRequestBody_def userMessage_def)

text \<open>
  C7. For every provider and every prompt, with an image attached (a non-empty URI that
  the platform resizes and reads), the body built has exactly one message, of role
  \<open>user\<close>, whose content has exactly two parts: a text part that is the fixed preamble
  \<open>defaultPrompt\<close> followed at once by the prompt, and an image part, which is an
  \<open>image_url\<close> data URI of the base64 JPEG for OpenAI and Perplexity and a structured
  \<open>image\<close> block for Anthropic.
\<close>

theorem C7_image_body_two_parts:
  assumes "uri \<noteq> []"
    and "manipulateAsync rt uri = Inr scaledUri"
    and "readAsStringAsync rt scaledUri = Inr base64Image"
  shows "formatRequestBody rt p prompt (Some uri) =
     ([ManipulateImage uri, ReadFile scaledUri],
      Inr (JObj ([(lit ''model'', JStr (model (API_CONFIG p))),
                  (lit ''messages'',
                     JArr [JObj [(lit ''role'', JStr (lit ''user'')),
                        (lit ''content'',
                           JArr [JObj [(lit ''type'', JStr (lit ''text'')),
                                       (lit ''text'', JStr (defaultPrompt @ prompt))],
                                 (case p of
                                    anthropic \<Rightarrow>
                                      JObj [(lit ''type'', JStr (lit ''image'')),
                                            (lit ''source'',
                                               JObj [(lit ''type'', JStr (lit ''base64'')),
                                                     (lit ''media_type'',
                                                        JStr (lit ''image/jpeg'')),
                                                     (lit ''data'', JStr base64Image)])]
                                  | _ \<Rightarrow>
                                      JObj [(lit ''type'', JStr (lit ''image_url'')),
                                            (lit ''image_url'',
                                               JObj [(lit ''url'',
                                                  JStr (lit ''data:image/jpeg;base64,''
                                                          @ base64Image))])])])]])]
                 @ (case p of perplexity \<Rightarrow> [] | _ \<Rightarrow> [(lit ''max_tokens'', JNum 1000)])),
           Some scaledUri))"
  using assms
  by (cases p)
    (simp_all add: formatRequestBody_def imageToBase64_def userMessage_def textPart_def
      imageUrlPart_def imageBlockPart_def)

theorem C7_witness:
  "formatRequestBody (sampleRuntime NoResponse) anthropic (lit ''Was ist das?'')
     (Some (lit ''file:///photo.png'')) =
     ([ManipulateImage (lit ''file:///photo.png''), ReadFile (lit ''file:///cache/scaled.jpg'')],
      Inr (JObj [(lit ''model'', JStr (lit ''claude-3-opus-20240229'')),
                 (lit ''messages'',
                    JArr [JObj [(lit ''role'', JStr (lit ''user'')),
                       (lit ''content'',
                          JArr [JObj [(lit ''type'', JStr (lit ''text'')),
                                      (lit ''text'', JStr (defaultPrompt @ lit ''Was ist das?''))],
                                JObj [(lit ''type'', JStr (lit ''image'')),
                                      (lit ''source'',
                                         JObj [(lit ''type'', JStr (lit ''base64'')),
                                               (lit ''media_type'', JStr (lit ''image/jpeg'')),
                                               (lit ''data'', JStr (lit ''QUJD''))])]])]]),
                 (lit ''max_tokens'', JNum 1000)],
           Some (lit ''file:///cache/scaled.jpg'')))"
  using C7_image_body_two_parts
    [of "lit ''file:///photo.png''" "sampleRuntime NoResponse" "lit ''file:///cache/scaled.jpg''"
       "lit ''QUJD''" anthropic "lit ''Was ist das?''"]
  by (simp add: sampleRuntime_def)

text \<open>
  C8, as the claim states it, fails: for a body whose \<open>error\<close> carries no message,
  such as \<open>{error:{type:"invalid_request_error"}}\<close>, the message shown is not a generic
  status-code message but the \<open>error\<close> object itself.
\<close>

theorem C8_counterexample:
  "snd (sendToAI (sampleRuntime (Responded 400 errorWithoutMessagePayload)) openai
          (lit ''sk-test'') (lit ''Was bedeutet 'Haus'?'') None)
     = Inl (HttpError 400 errorWithoutMessagePayload)
   \<and> last (fst (sendToAI (sampleRuntime (Responded 400 errorWithoutMessagePayload)) openai
                  (lit ''sk-test'') (lit ''Was bedeutet 'Haus'?'') None))
     = AlertShown (lit ''openai API Error'')
         (JObj [(lit ''type'', JStr (lit ''invalid_request_error''))])"
  by (simp add: sendToAI_def sendToAI_try_def formatRequestBody_def userMessage_def
      requestFor_def axios_post_def sampleRuntime_def errorWithoutMessagePayload_def
      errorMessage_def js_or_def)
    (simp add: lit_def)

text \<open>
  C8, amended. When the request of a call with a credential is answered with a status
  outside 2xx, \<open>sendToAI\<close> throws the HTTP client's error, which carries the status and
  the provider's body; the request was posted exactly once (no retry); and the last
  thing the handler does before rethrowing is to show the alert \<open><provider> API Error\<close>
  with a message taken from the body by a three-way fallback: the body's
  \<open>error.message\<close> when that is truthy (for \<open>{error:{message:m}}\<close> with a non-empty
  \<open>m\<close>, such as \<open>rate limited\<close>, it is \<open>m\<close>); else the body's \<open>error\<close> itself
  when that is truthy (a string, or the error object); else, when the body has no
  truthy \<open>error\<close>, the generic \<open>Error: <status>\<close>.
\<close>

theorem C8_non_2xx_is_rethrown_with_message_fallback:
  assumes "apiKey \<noteq> []"
    and "formatRequestBody rt p prompt imageUri = (evs, Inr (b, s))"
    and "transport rt (requestFor p apiKey b) = Responded status d"
    and "status < 200 \<or> 300 \<le> status"
  shows "snd (sendToAI rt p apiKey prompt imageUri) = Inl (HttpError status d)
    \<and> filter isHttpPost (fst (sendToAI rt p apiKey prompt imageUri))
        = [HttpPost (requestFor p apiKey b)]
    \<and> last (fst (sendToAI rt p apiKey prompt imageUri))
        = AlertShown (providerName p @ lit '' API Error'') (errorMessage status d)
    \<and> (\<forall>m. m \<noteq> [] \<and> d = JObj [(lit ''error'', JObj [(lit ''message'', JStr m)])]
           \<longrightarrow> errorMessage status d = JStr m)
    \<and> (\<not> truthy (optProp d (lit ''error''))
           \<longrightarrow> errorMessage status d = JStr (lit ''Error: '' @ numberToString status))
    \<and> (truthy (optProp (optProp d (lit ''error'')) (lit ''message''))
           \<longrightarrow> errorMessage status d = optProp (optProp d (lit ''error'')) (lit ''message''))
    \<and> (truthy (optProp d (lit ''error''))
         \<and> \<not> truthy (optProp (optProp d (lit ''error'')) (lit ''message''))
           \<longrightarrow> errorMessage status d = optProp d (lit ''error''))"
proof -
  have np: "filter isHttpPost evs = []"
    using formatRequestBody_no_post [of rt p prompt imageUri] assms(2) by simp
  have m1: "truthy (optProp (optProp d (lit ''error'')) (lit ''message''))
      \<Longrightarrow> errorMessage status d = optProp (optProp d (lit ''error'')) (lit ''message'')"
    by (simp add: errorMessage_def js_or_def)
  have m2: "truthy (optProp d (lit ''error''))
      \<Longrightarrow> \<not> truthy (optProp (optProp d (lit ''error'')) (lit ''message''))
      \<Longrightarrow> errorMessage status d = optProp d (lit ''error'')"
    by (simp add: errorMessage_def js_or_def)
  show ?thesis
    using np errorMessage_provider errorMessage_generic m1 m2
    by (simp add: sendToAI_http_error [OF assms])
qed

theorem C8_witness:
  "snd (sendToAI (sampleRuntime (Responded 429 rateLimitedPayload)) openai (lit ''sk-test'')
          (lit ''Was bedeutet 'Haus'?'') None)
     = Inl (HttpError 429 rateLimitedPayload)
   \<and> filter isHttpPost
        (fst (sendToAI (sampleRuntime (Responded 429 rateLimitedPayload)) openai
                (lit ''sk-test'') (lit ''Was bedeutet 'Haus'?'') None))
     = [HttpPost (hausRequest (lit ''sk-test''))]
   \<and> last (fst (sendToAI (sampleRuntime (Responded 429 rateLimitedPayload)) openai
                (lit ''sk-test'') (lit ''Was bedeutet 'Haus'?'') None))
     = AlertShown (lit ''openai API Error'') (JStr (lit ''rate limited''))
   \<and> last (fst (sendToAI (sampleRuntime (Responded 429 (JObj []))) openai
                (lit ''sk-test'') (lit ''Was bedeutet 'Haus'?'') None))
     = AlertShown (lit ''openai API Error'') (JStr (lit ''Error: 429''))
   \<and> last (fst (sendToAI
                (sampleRuntime (Responded 503 (JObj [(lit ''error'', JStr (lit ''overloaded''))])))
                openai (lit ''sk-test'') (lit ''Was bedeutet 'Haus'?'') None))
     = AlertShown (lit ''openai API Error'') (JStr (lit ''overloaded''))"
proof -
  have k: "lit ''sk-test'' \<noteq> []" by simp
  have s: "(429::int) < 200 \<or> 300 \<le> (429::int)" by simp
  have s3: "(503::int) < 200 \<or> 300 \<le> (503::int)" by simp
  have t1: "transport (sampleRuntime (Responded 429 rateLimitedPayload))
      (requestFor openai (lit ''sk-test'') (body (hausRequest (lit ''sk-test''))))
      = Responded 429 rateLimitedPayload"
    by (simp add: sampleRuntime_def)
  have t2: "transport (sampleRuntime (Responded 429 (JObj [])))
      (requestFor openai (lit ''sk-test'') (body (hausRequest (lit ''sk-test''))))
      = Responded 429 (JObj [])"
    by (simp add: sampleRuntime_def)
  have t3: "transport
      (sampleRuntime (Responded 503 (JObj [(lit ''error'', JStr (lit ''overloaded''))])))
      (requestFor openai (lit ''sk-test'') (body (hausRequest (lit ''sk-test''))))
      = Responded 503 (JObj [(lit ''error'', JStr (lit ''overloaded''))])"
    by (simp add: sampleRuntime_def)
  have n: "numberToString 429 = lit ''429''"
    by (simp add: numberToString_def lit_def)
  have a: "lit ''openai'' @ lit '' API Error'' = lit ''openai API Error''"
    by (simp add: lit_def)
  have e: "lit ''Error: '' @ lit ''429'' = lit ''Error: 429''"
    by (simp add: lit_def)
  note A = C8_non_2xx_is_rethrown_with_message_fallback [OF k formatRequestBody_haus t1 s]
  note B = C8_non_2xx_is_rethrown_with_message_fallback [OF k formatRequestBody_haus t2 s]
  note C = C8_non_2xx_is_rethrown_with_message_fallback [OF k formatRequestBody_haus t3 s3]
  have A4: "errorMessage 429 rateLimitedPayload = JStr (lit ''rate limited'')"
    using A by (simp add: rateLimitedPayload_def)
  have B5: "errorMessage 429 (JObj []) = JStr (lit ''Error: 429'')"
    using B by (simp add: n e)
  have C7: "errorMessage 503 (JObj [(lit ''error'', JStr (lit ''overloaded''))])
      = JStr (lit ''overloaded'')"
    using C by simp
  show ?thesis
    using A B C by (simp add: requestFor_haus A4 B5 C7 a)
qed

text \<open>
  C9, as the claim states it, fails: when the read that \<open>saveHistoryItem\<close> makes
  through \<open>getHistory\<close> rejects, \<open>getHistory\<close> catches the error and yields the empty
  list, the save succeeds, and the stored history is the new item alone.
\<close>

theorem C9_counterexample:
  "items (historyStore [Some (Error (lit ''Row too big''))]) HISTORY
     = Some (JsonText (JArr [itemJson oldItem]))
   \<and> fst (saveHistoryItem (itemJson newItem) (historyStore [Some (Error (lit ''Row too big''))]))
     = Inr ()
   \<and> fst (getHistory (snd (saveHistoryItem (itemJson newItem)
                              (historyStore [Some (Error (lit ''Row too big''))]))))
     = JArr [itemJson newItem]"
  by (simp add: historyStore_def saveHistoryItem_def getHistory_def AsyncStorage_getItem_def
      AsyncStorage_setItem_def nextFault_def consoleError_def JSON_stringify_def
      jsonNormal_itemJson itemJson_defined)

text \<open>
  C9, amended. For every stored history list \<open>h\<close> (nothing stored counting as the empty
  list) and every item \<open>i\<close>: if the read inside \<open>saveHistoryItem\<close> is not rejected,
  the save succeeds and the following read is not rejected, then \<open>getHistory\<close> returns
  \<open>i\<close> followed by \<open>h\<close> in its previous order. On a storage with no fault scheduled the
  save does succeed, with that result. If instead the read inside \<open>saveHistoryItem\<close>
  is rejected and the save succeeds, the stored history is the new item alone.
\<close>

theorem C9_save_prepends_when_reads_work:
  assumes stored: "items st HISTORY = Some (JsonText (JArr (map itemJson h)))
           \<or> (items st HISTORY = None \<and> h = [])"
  shows "(\<not> rejects st \<and> fst (saveHistoryItem (itemJson i) st) = Inr ()
            \<and> \<not> rejects (snd (saveHistoryItem (itemJson i) st))
          \<longrightarrow> fst (getHistory (snd (saveHistoryItem (itemJson i) st)))
                = JArr (map itemJson (i # h)))
       \<and> (faults st = []
          \<longrightarrow> fst (saveHistoryItem (itemJson i) st) = Inr ()
              \<and> fst (getHistory (snd (saveHistoryItem (itemJson i) st)))
                = JArr (map itemJson (i # h)))
       \<and> (rejects st \<and> fst (saveHistoryItem (itemJson i) st) = Inr ()
            \<and> \<not> rejects (snd (saveHistoryItem (itemJson i) st))
          \<longrightarrow> fst (getHistory (snd (saveHistoryItem (itemJson i) st)))
                = JArr [itemJson i])"
proof -
  have s: "JSON_stringify (JArr (itemJson i # map itemJson h))
      = JsonText (JArr (map itemJson (i # h)))"
    using jsonNormal_history [of "i # h"] by (simp add: JSON_stringify_def)
  have g: "getHistory st = (JArr (map itemJson h), st\<lparr>faults := tl (faults st)\<rparr>)"
    if "\<not> rejects st"
    using stored that by (auto simp add: getHistory_works getHistory_nothing)
  have main: "fst (getHistory (snd (saveHistoryItem (itemJson i) st)))
      = JArr (map itemJson (i # h))"
    if r1: "\<not> rejects st" and ok: "fst (saveHistoryItem (itemJson i) st) = Inr ()"
      and r2: "\<not> rejects (snd (saveHistoryItem (itemJson i) st))"
  proof -
    note sv = saveHistoryItem_stored [OF g [OF r1] ok]
    have "items (snd (saveHistoryItem (itemJson i) st)) HISTORY
        = Some (JsonText (JArr (map itemJson (i # h))))"
      by (simp add: sv s)
    with r2 show ?thesis
      by (simp add: getHistory_works)
  qed
  have quiet: "fst (saveHistoryItem (itemJson i) st) = Inr ()
      \<and> \<not> rejects (snd (saveHistoryItem (itemJson i) st)) \<and> \<not> rejects st"
    if nf: "faults st = []"
  proof -
    have r1: "\<not> rejects st"
      using nf by (simp add: rejects_def nextFault_def)
    have r1': "\<not> rejects (st\<lparr>faults := tl (faults st)\<rparr>)"
      using nf by (simp add: rejects_def nextFault_def)
    have sv: "saveHistoryItem (itemJson i) st =
        (Inr (), st\<lparr>faults := tl (faults st)\<rparr>
           \<lparr>faults := tl (faults (st\<lparr>faults := tl (faults st)\<rparr>)),
            items := (items (st\<lparr>faults := tl (faults st)\<rparr>))
              (HISTORY \<mapsto> JSON_stringify (JArr (itemJson i # map itemJson h)))\<rparr>)"
      by (simp add: saveHistoryItem_array [OF g [OF r1]] setItem_works [OF r1'])
    show ?thesis
      using r1 nf by (simp add: sv rejects_def nextFault_def)
  qed
  have lost: "fst (getHistory (snd (saveHistoryItem (itemJson i) st))) = JArr [itemJson i]"
    if r1: "rejects st" and ok: "fst (saveHistoryItem (itemJson i) st) = Inr ()"
      and r2: "\<not> rejects (snd (saveHistoryItem (itemJson i) st))"
  proof -
    obtain e where ge: "getHistory st =
        (JArr [], consoleError [LStr (lit ''Error getting history:''), LErr e]
                    (st\<lparr>faults := tl (faults st)\<rparr>))"
      using getHistory_rejected [OF r1] by blast
    have s1: "JSON_stringify (JArr [itemJson i]) = JsonText (JArr [itemJson i])"
      using jsonNormal_history [of "[i]"] by (simp add: JSON_stringify_def)
    note sv = saveHistoryItem_stored [OF ge ok]
    have "items (snd (saveHistoryItem (itemJson i) st)) HISTORY
        = Some (JsonText (JArr [itemJson i]))"
      by (simp add: sv s1)
    with r2 show ?thesis
      by (simp add: getHistory_works)
  qed
  show ?thesis
    using main quiet lost by blast
qed

theorem C9_witness:
  "fst (saveHistoryItem (itemJson newItem) (historyStore [])) = Inr ()
   \<and> fst (getHistory (snd (saveHistoryItem (itemJson newItem) (historyStore []))))
     = JArr [itemJson newItem, itemJson oldItem]
   \<and> fst (getHistory (snd (saveHistoryItem (itemJson newItem)
                              (historyStore [Some (Error (lit ''Disk error''))]))))
     = JArr [itemJson newItem]"
proof -
  have st: "items (historyStore []) HISTORY = Some (JsonText (JArr (map itemJson [oldItem])))
     \<or> (items (historyStore []) HISTORY = None \<and> [oldItem] = [])"
    by (simp add: historyStore_def)
  have nf: "faults (historyStore []) = []"
    by (simp add: historyStore_def)
  let ?bad = "historyStore [Some (Error (lit ''Disk error''))]"
  have st': "items ?bad HISTORY = Some (JsonText (JArr (map itemJson [oldItem])))
     \<or> (items ?bad HISTORY = None \<and> [oldItem] = [])"
    by (simp add: historyStore_def)
  have r1: "rejects ?bad"
    by (simp add: rejects_def nextFault_def historyStore_def)
  have sv: "fst (saveHistoryItem (itemJson newItem) ?bad) = Inr ()"
    by (simp add: historyStore_def saveHistoryItem_def getHistory_def AsyncStorage_getItem_def
        AsyncStorage_setItem_def nextFault_def consoleError_def)
  have r2: "\<not> rejects (snd (saveHistoryItem (itemJson newItem) ?bad))"
    by (simp add: historyStore_def saveHistoryItem_def getHistory_def AsyncStorage_getItem_def
        AsyncStorage_setItem_def nextFault_def consoleError_def rejects_def)
  show ?thesis
    using C9_save_prepends_when_reads_work [OF st, of newItem] nf
      C9_save_prepends_when_reads_work [OF st', of newItem] r1 sv r2
    by simp
qed

text \<open>
  C10, as the claim states it, fails: when the read that \<open>saveSettings\<close> makes through
  \<open>getSettings\<close> rejects, \<open>getSettings\<close> catches the error and yields the default
  settings, the save succeeds, and the fields the update does not name hold the default
  values, not the stored ones.
\<close>

theorem C10_counterexample:
  "items (settingsStore [Some (Error (lit ''Row too big''))]) SETTINGS
     = Some (JsonText (settingsJson
         \<lparr> defaultProvider = openai, theme = dark, language = de \<rparr>))
   \<and> fst (saveSettings (partialJson languageOnly)
            (settingsStore [Some (Error (lit ''Row too big''))]))
     = Inr ()
   \<and> fst (getSettings (snd (saveSettings (partialJson languageOnly)
                              (settingsStore [Some (Error (lit ''Row too big''))]))))
     = settingsJson \<lparr> defaultProvider = anthropic, theme = system, language = tr \<rparr>"
proof -
  let ?st = "settingsStore [Some (Error (lit ''Row too big''))]"
  have g: "getSettings ?st = (settingsJson DEFAULT_SETTINGS,
      consoleError [LStr (lit ''Error getting settings:''), LErr (Error (lit ''Row too big''))]
        (?st\<lparr>faults := []\<rparr>))"
    by (simp add: getSettings_def AsyncStorage_getItem_def nextFault_def settingsStore_def)
  have a: "applyPartial DEFAULT_SETTINGS languageOnly
      = \<lparr> defaultProvider = anthropic, theme = system, language = tr \<rparr>"
    by (simp add: applyPartial_def DEFAULT_SETTINGS_def languageOnly_def)
  have sv: "saveSettings (partialJson languageOnly) ?st =
     (Inr (),
      (consoleError [LStr (lit ''Error getting settings:''), LErr (Error (lit ''Row too big''))]
        (?st\<lparr>faults := []\<rparr>))\<lparr>items := (items ?st)(SETTINGS \<mapsto>
           JsonText (settingsJson
             \<lparr> defaultProvider = anthropic, theme = system, language = tr \<rparr>))\<rparr>)"
    by (simp add: saveSettings_def g saved_settings a AsyncStorage_setItem_def nextFault_def
        consoleError_def)
  show ?thesis
    by (simp add: sv getSettings_def AsyncStorage_getItem_def nextFault_def consoleError_def)
      (simp add: settingsStore_def)
qed

text \<open>
  C10, amended. For every stored settings value \<open>s\<close> (nothing stored counting as the
  default settings: provider \<open>anthropic\<close>, theme \<open>system\<close>, language \<open>en\<close>) and every
  partial update \<open>q\<close>: if the read inside \<open>saveSettings\<close> is not rejected, the save
  succeeds and the following read is not rejected, then \<open>getSettings\<close> returns settings
  in which each field named in \<open>q\<close> has the value given in \<open>q\<close> and every other field
  has its value from \<open>s\<close>. On a storage with no fault scheduled the save does succeed,
  with that result. If instead the read inside \<open>saveSettings\<close> is rejected and the save
  succeeds, every field not named in \<open>q\<close> is stored with its default value.
\<close>

theorem C10_save_merges_when_reads_work:
  assumes stored: "items st SETTINGS = Some (JsonText (settingsJson s))
           \<or> (items st SETTINGS = None
               \<and> s = \<lparr> defaultProvider = anthropic, theme = system, language = en \<rparr>)"
  shows "(\<not> rejects st \<and> fst (saveSettings (partialJson q) st) = Inr ()
            \<and> \<not> rejects (snd (saveSettings (partialJson q) st))
          \<longrightarrow> fst (getSettings (snd (saveSettings (partialJson q) st))) =
              settingsJson \<lparr> defaultProvider =
                  (case newDefaultProvider q of None \<Rightarrow> defaultProvider s | Some v \<Rightarrow> v),
                theme = (case newTheme q of None \<Rightarrow> theme s | Some v \<Rightarrow> v),
                language = (case newLanguage q of None \<Rightarrow> language s | Some v \<Rightarrow> v) \<rparr>)
       \<and> (faults st = []
          \<longrightarrow> fst (saveSettings (partialJson q) st) = Inr ()
              \<and> fst (getSettings (snd (saveSettings (partialJson q) st))) =
              settingsJson \<lparr> defaultProvider =
                  (case newDefaultProvider q of None \<Rightarrow> defaultProvider s | Some v \<Rightarrow> v),
                theme = (case newTheme q of None \<Rightarrow> theme s | Some v \<Rightarrow> v),
                language = (case newLanguage q of None \<Rightarrow> language s | Some v \<Rightarrow> v) \<rparr>)
       \<and> (rejects st \<and> fst (saveSettings (partialJson q) st) = Inr ()
            \<and> \<not> rejects (snd (saveSettings (partialJson q) st))
          \<longrightarrow> fst (getSettings (snd (saveSettings (partialJson q) st))) =
              settingsJson \<lparr> defaultProvider =
                  (case newDefaultProvider q of None \<Rightarrow> anthropic | Some v \<Rightarrow> v),
                theme = (case newTheme q of None \<Rightarrow> system | Some v \<Rightarrow> v),
                language = (case newLanguage q of None \<Rightarrow> en | Some v \<Rightarrow> v) \<rparr>)"
proof -
  have g: "getSettings st = (settingsJson s, st\<lparr>faults := tl (faults st)\<rparr>)"
    if "\<not> rejects st"
    using stored that
    by (auto simp add: getSettings_works getSettings_nothing DEFAULT_SETTINGS_def)
  have main: "fst (getSettings (snd (saveSettings (partialJson q) st)))
      = settingsJson (applyPartial s q)"
    if r1: "\<not> rejects st" and ok: "fst (saveSettings (partialJson q) st) = Inr ()"
      and r2: "\<not> rejects (snd (saveSettings (partialJson q) st))"
  proof -
    note sv = saveSettings_stored [OF g [OF r1] ok]
    have "items (snd (saveSettings (partialJson q) st)) SETTINGS
        = Some (JsonText (settingsJson (applyPartial s q)))"
      by (simp add: sv saved_settings)
    with r2 show ?thesis
      by (simp add: getSettings_works)
  qed
  have quiet: "fst (saveSettings (partialJson q) st) = Inr ()
      \<and> \<not> rejects (snd (saveSettings (partialJson q) st)) \<and> \<not> rejects st"
    if nf: "faults st = []"
  proof -
    have r1: "\<not> rejects st"
      using nf by (simp add: rejects_def nextFault_def)
    have r1': "\<not> rejects (st\<lparr>faults := tl (faults st)\<rparr>)"
      using nf by (simp add: rejects_def nextFault_def)
    have sv: "saveSettings (partialJson q) st =
        (Inr (), st\<lparr>faults := tl (faults st)\<rparr>
           \<lparr>faults := tl (faults (st\<lparr>faults := tl (faults st)\<rparr>)),
            items := (items (st\<lparr>faults := tl (faults st)\<rparr>))
              (SETTINGS \<mapsto> JsonText (settingsJson (applyPartial s q)))\<rparr>)"
      by (simp add: saveSettings_def g [OF r1] setItem_works [OF r1'] saved_settings)
    show ?thesis
      using r1 nf by (simp add: sv rejects_def nextFault_def)
  qed
  have lost: "fst (getSettings (snd (saveSettings (partialJson q) st)))
      = settingsJson (applyPartial DEFAULT_SETTINGS q)"
    if r1: "rejects st" and ok: "fst (saveSettings (partialJson q) st) = Inr ()"
      and r2: "\<not> rejects (snd (saveSettings (partialJson q) st))"
  proof -
    obtain e where ge: "getSettings st =
        (settingsJson DEFAULT_SETTINGS,
         consoleError [LStr (lit ''Error getting settings:''), LErr e]
           (st\<lparr>faults := tl (faults st)\<rparr>))"
      using getSettings_rejected [OF r1] by blast
    note sv = saveSettings_stored [OF ge ok]
    have "items (snd (saveSettings (partialJson q) st)) SETTINGS
        = Some (JsonText (settingsJson (applyPartial DEFAULT_SETTINGS q)))"
      by (simp add: sv saved_settings)
    with r2 show ?thesis
      by (simp add: getSettings_works)
  qed
  have d: "applyPartial DEFAULT_SETTINGS q =
      \<lparr> defaultProvider = (case newDefaultProvider q of None \<Rightarrow> anthropic | Some v \<Rightarrow> v),
        theme = (case newTheme q of None \<Rightarrow> system | Some v \<Rightarrow> v),
        language = (case newLanguage q of None \<Rightarrow> en | Some v \<Rightarrow> v) \<rparr>"
    by (simp add: applyPartial_def DEFAULT_SETTINGS_def split: option.splits)
  have a: "applyPartial s q =
      \<lparr> defaultProvider = (case newDefaultProvider q of None \<Rightarrow> defaultProvider s | Some v \<Rightarrow> v),
        theme = (case newTheme q of None \<Rightarrow> theme s | Some v \<Rightarrow> v),
        language = (case newLanguage q of None \<Rightarrow> language s | Some v \<Rightarrow> v) \<rparr>"
    by (simp add: applyPartial_def)
  show ?thesis
    using main quiet lost unfolding d a by blast
qed

theorem C10_witness:
  "fst (saveSettings (partialJson languageOnly) (settingsStore [])) = Inr ()
   \<and> fst (getSettings (snd (saveSettings (partialJson languageOnly) (settingsStore []))))
     = settingsJson \<lparr> defaultProvider = openai, theme = dark, language = tr \<rparr>
   \<and> fst (getSettings (snd (saveSettings (partialJson languageOnly)
                               (settingsStore [Some (Error (lit ''Disk error''))]))))
     = settingsJson \<lparr> defaultProvider = anthropic, theme = system, language = tr \<rparr>"
proof -
  have st: "items (settingsStore []) SETTINGS
       = Some (JsonText (settingsJson \<lparr> defaultProvider = openai, theme = dark, language = de \<rparr>))
     \<or> (items (settingsStore []) SETTINGS = None
         \<and> \<lparr> defaultProvider = openai, theme = dark, language = de \<rparr>
           = \<lparr> defaultProvider = anthropic, theme = system, language = en \<rparr>)"
    by (simp add: settingsStore_def)
  have nf: "faults (settingsStore []) = []"
    by (simp add: settingsStore_def)
  let ?bad = "settingsStore [Some (Error (lit ''Disk error''))]"
  have st': "items ?bad SETTINGS
       = Some (JsonText (settingsJson \<lparr> defaultProvider = openai, theme = dark, language = de \<rparr>))
     \<or> (items ?bad SETTINGS = None
         \<and> \<lparr> defaultProvider = openai, theme = dark, language = de \<rparr>
           = \<lparr> defaultProvider = anthropic, theme = system, language = en \<rparr>)"
    by (simp add: settingsStore_def)
  have r1: "rejects ?bad"
    by (simp add: rejects_def nextFault_def settingsStore_def)
  have g: "getSettings ?bad = (settingsJson DEFAULT_SETTINGS,
      consoleError [LStr (lit ''Error getting settings:''), LErr (Error (lit ''Disk error''))]
        (?bad\<lparr>faults := []\<rparr>))"
    by (simp add: getSettings_def AsyncStorage_getItem_def nextFault_def settingsStore_def)
  have sv: "saveSettings (partialJson languageOnly) ?bad =
     (Inr (),
      (consoleError [LStr (lit ''Error getting settings:''), LErr (Error (lit ''Disk error''))]
        (?bad\<lparr>faults := []\<rparr>))\<lparr>items := (items ?bad)(SETTINGS \<mapsto>
           JsonText (settingsJson (applyPartial DEFAULT_SETTINGS languageOnly)))\<rparr>)"
    by (simp add: saveSettings_def g saved_settings AsyncStorage_setItem_def nextFault_def
        consoleError_def)
  have ok: "fst (saveSettings (partialJson languageOnly) ?bad) = Inr ()"
    by (simp add: sv)
  have r2: "\<not> rejects (snd (saveSettings (partialJson languageOnly) ?bad))"
    by (simp add: sv rejects_def nextFault_def consoleError_def)
  show ?thesis
    using C10_save_merges_when_reads_work [OF st, of languageOnly] nf
      C10_save_merges_when_reads_work [OF st', of languageOnly] r1 ok r2
    by (simp add: languageOnly_def)
qed

end
